theory Spec2Isabelle
  imports Complex_Main
begin

section \<open>JavaScript values used by the trading engine\<close>

text \<open>
  A JavaScript number is modelled as a real number, with exact arithmetic: rounding
  error and overflow of IEEE doubles are not part of the model. Where the engine can
  produce a value that is not a finite number (\<open>NaN\<close> from \<open>parseFloat\<close>, or the result of
  a division by zero), the value is a \<open>jsnum\<close>, and \<open>None\<close> stands for "not a finite
  number". Arithmetic on \<open>jsnum\<close> is strict, as arithmetic with \<open>NaN\<close> is.
\<close>

type_synonym jsnum = "real option"

definition jsAdd :: "jsnum \<Rightarrow> jsnum \<Rightarrow> jsnum" where
  "jsAdd a b = (case a of None \<Rightarrow> None | Some x \<Rightarrow> (case b of None \<Rightarrow> None | Some y \<Rightarrow> Some (x + y)))"

definition jsSub :: "jsnum \<Rightarrow> jsnum \<Rightarrow> jsnum" where
  "jsSub a b = (case a of None \<Rightarrow> None | Some x \<Rightarrow> (case b of None \<Rightarrow> None | Some y \<Rightarrow> Some (x - y)))"

definition jsMul :: "jsnum \<Rightarrow> jsnum \<Rightarrow> jsnum" where
  "jsMul a b = (case a of None \<Rightarrow> None | Some x \<Rightarrow> (case b of None \<Rightarrow> None | Some y \<Rightarrow> Some (x * y)))"

definition jsNeg :: "jsnum \<Rightarrow> jsnum" where
  "jsNeg a = (case a of None \<Rightarrow> None | Some x \<Rightarrow> Some (- x))"

text \<open>
  A field of a JSON object returned by the exchange: absent, a string or a number.
  \<open>truthy\<close> is JavaScript's conversion to a boolean and \<open>jsOr\<close> is the operator \<open>||\<close>.
\<close>

datatype jsval = Undefined | Str string | Num real

fun truthy :: "jsval \<Rightarrow> bool" where
  "truthy Undefined = False"
| "truthy (Str s) = (s \<noteq> [])"
| "truthy (Num r) = (r \<noteq> 0)"

definition jsOr :: "jsval \<Rightarrow> jsval \<Rightarrow> jsval" where
  "jsOr a b = (if truthy a then a else b)"

subsection \<open>Strings\<close>

text \<open>\<open>String.prototype.includes\<close>: the needle occurs as a contiguous substring.\<close>

definition startsWith :: "string \<Rightarrow> string \<Rightarrow> bool" where
  "startsWith s sub = (take (length sub) s = sub)"

fun includesStr :: "string \<Rightarrow> string \<Rightarrow> bool" where
  "includesStr [] sub = (sub = [])"
| "includesStr (c # cs) sub = (startsWith (c # cs) sub \<or> includesStr cs sub)"

text \<open>\<open>toLowerCase\<close> on the ASCII letters; every other byte is left as it is.\<close>

definition lowerChar :: "char \<Rightarrow> char" where
  "lowerChar c =
     (case map_of (zip ''ABCDEFGHIJKLMNOPQRSTUVWXYZ'' ''abcdefghijklmnopqrstuvwxyz'') c of
        Some l \<Rightarrow> l
      | None \<Rightarrow> c)"

definition toLowerCase :: "string \<Rightarrow> string" where
  "toLowerCase s = map lowerChar s"

subsection \<open>parseFloat\<close>

text \<open>
  \<open>parseFloat\<close> on a decimal literal, as the exchange writes prices and amounts: leading
  blanks, an optional sign, digits with an optional fraction, an optional exponent; the
  longest such prefix is read and the rest of the string is ignored. A string with no
  such prefix gives \<open>NaN\<close> (\<open>None\<close>). The literal \<open>Infinity\<close> is outside the model.
\<close>

definition digitVal :: "char \<Rightarrow> nat option" where
  "digitVal c = map_of (zip ''0123456789'' [0, 1, 2, 3, 4, 5, 6, 7, 8, 9]) c"

definition isDigit :: "char \<Rightarrow> bool" where
  "isDigit c = (digitVal c \<noteq> None)"

definition isBlank :: "char \<Rightarrow> bool" where
  "isBlank c = (c = CHR '' '' \<or> c = CHR 0x09 \<or> c = CHR 0x0A \<or> c = CHR 0x0D)"

fun digitsToNat :: "nat \<Rightarrow> string \<Rightarrow> nat" where
  "digitsToNat acc [] = acc"
| "digitsToNat acc (c # cs) = digitsToNat (10 * acc + (case digitVal c of Some d \<Rightarrow> d | None \<Rightarrow> 0)) cs"

definition readSign :: "string \<Rightarrow> bool \<times> string" where
  "readSign s =
     (case s of
        [] \<Rightarrow> (False, [])
      | c # cs \<Rightarrow> if c = CHR ''-'' then (True, cs) else if c = CHR ''+'' then (False, cs) else (False, s))"

definition readExponent :: "string \<Rightarrow> int" where
  "readExponent s =
     (case s of
        [] \<Rightarrow> 0
      | c # cs \<Rightarrow>
          if c = CHR ''e'' \<or> c = CHR ''E'' then
            (let (neg, ds) = readSign cs; e = takeWhile isDigit ds
             in if e = [] then 0
                else if neg then - int (digitsToNat 0 e) else int (digitsToNat 0 e))
          else 0)"

definition scale10 :: "real \<Rightarrow> int \<Rightarrow> real" where
  "scale10 x e = (if 0 \<le> e then x * 10 ^ nat e else x / 10 ^ nat (- e))"

definition parseDecimal :: "string \<Rightarrow> jsnum" where
  "parseDecimal s =
     (let (neg, s1) = readSign (dropWhile isBlank s);
          ip = takeWhile isDigit s1;
          r1 = dropWhile isDigit s1;
          hasDot = (r1 \<noteq> [] \<and> hd r1 = CHR ''.'');
          fp = (if hasDot then takeWhile isDigit (tl r1) else []);
          r2 = (if hasDot then dropWhile isDigit (tl r1) else r1)
      in if ip = [] \<and> fp = [] then None
         else
           (let m = real (digitsToNat 0 ip) + real (digitsToNat 0 fp) / 10 ^ length fp;
                v = scale10 m (readExponent r2)
            in Some (if neg then - v else v)))"

fun parseFloat :: "jsval \<Rightarrow> jsnum" where
  "parseFloat Undefined = None"
| "parseFloat (Str s) = parseDecimal s"
| "parseFloat (Num r) = Some r"

section \<open>Configuration\<close>

text \<open>
  \<open>tradingConfig\<close> is the trading section that \<open>ConfigManager.getTradingConfig\<close>
  returns; a field that the file does not set is \<open>None\<close>. \<open>config\<close> is the object that
  \<open>startTrading\<close> builds from its defaults and the caller's overrides.
\<close>

record tradingConfig =
  tcLeverage :: "real option"
  positionSizeRange :: "(real \<times> real) option"
  closeAfterMinutesRange :: "(real \<times> real) option"

record config =
  leverage :: real
  maxDelay :: real
  minDelay :: real

text \<open>The defaults of \<open>startTrading\<close> and of \<open>ConfigManager\<close>.\<close>

definition defaultConfig :: config where
  "defaultConfig = \<lparr>leverage = 10, maxDelay = 30000, minDelay = 10000\<rparr>"

definition defaultTradingConfig :: tradingConfig where
  "defaultTradingConfig =
     \<lparr>tcLeverage = Some 5, positionSizeRange = Some (400, 600),
      closeAfterMinutesRange = Some (30, 90)\<rparr>"

section \<open>Sizing: calculateQuantity\<close>

text \<open>
  \<open>leverage || tradingConfig.leverage || 5\<close>: the argument when it is a non-zero
  number, else the configured leverage when that is a non-zero number, else 5.
\<close>

definition actualLeverage :: "tradingConfig \<Rightarrow> real option \<Rightarrow> real" where
  "actualLeverage tc lev =
     (case lev of
        Some l \<Rightarrow> if l \<noteq> 0 then l else (case tcLeverage tc of Some t \<Rightarrow> if t \<noteq> 0 then t else 5 | None \<Rightarrow> 5)
      | None \<Rightarrow> (case tcLeverage tc of Some t \<Rightarrow> if t \<noteq> 0 then t else 5 | None \<Rightarrow> 5))"

definition symbolPrecision :: "string \<Rightarrow> nat" where
  "symbolPrecision symbol =
     (if includesStr symbol ''BTC'' then 3
      else if includesStr symbol ''ETH'' then 2
      else if includesStr symbol ''BNB'' then 1
      else 3)"

text \<open>
  \<open>Math.round\<close> rounds half up, which is \<^const>\<open>round\<close>. A price that is \<open>NaN\<close> or zero
  makes the quotient, and so the result, not a finite number.
\<close>

definition calculateQuantity :: "tradingConfig \<Rightarrow> real \<Rightarrow> jsnum \<Rightarrow> real option \<Rightarrow> string \<Rightarrow> jsnum" where
  "calculateQuantity tc positionSizeUSDT currentPrice lev symbol =
     (case currentPrice of
        None \<Rightarrow> None
      | Some p \<Rightarrow>
          if p = 0 then None
          else
            (let quantity = (positionSizeUSDT * actualLeverage tc lev) / p;
                 multiplier = (10::real) ^ symbolPrecision symbol
             in Some (real_of_int (round (quantity * multiplier)) / multiplier)))"

text \<open>
  The delay between the two legs of a pair, for the draw \<open>r\<close> of \<open>Math.random()\<close>:
  \<open>Math.floor(r * (config.maxDelay - config.minDelay) + config.minDelay)\<close>.
\<close>

definition interLegDelay :: "config \<Rightarrow> real \<Rightarrow> int" where
  "interLegDelay cfg r = \<lfloor>r * (maxDelay cfg - minDelay cfg) + minDelay cfg\<rfloor>"

section \<open>Accounts, orders and positions\<close>

record account =
  accountName :: string
  apiKey :: string
  secretKey :: string

record hedgePair =
  hpPairId :: string
  long :: account
  short :: account

text \<open>
  The parameters of one \<open>placeOrder\<close> call. The quantity is sent as
  \<open>quantity.toString()\<close>; the model keeps the number. \<open>oReduceOnly\<close> is true when the
  call passes \<open>reduceOnly\<close>.
\<close>

record orderRequest =
  oSymbol :: string
  oSide :: string
  oType :: string
  oPositionSide :: "string option"
  oQuantity :: jsnum
  oReduceOnly :: bool

text \<open>The order confirmation of the exchange, with the fields the engine reads.\<close>

record confirmation =
  orderId :: jsval
  price :: jsval
  avgPrice :: jsval
  origQty :: jsval
  executedQty :: jsval

record exchangePosition =
  xSymbol :: string
  positionAmt :: jsval

datatype positionStatus = Open | Closed | EmergencyClosed

record positionPair =
  pairId :: string
  symbol :: string
  openTime :: int
  longOrder :: confirmation
  shortOrder :: confirmation
  longAccount :: account
  shortAccount :: account
  quantity :: jsnum
  positionSizeUSDT :: real
  openPrice :: jsnum
  status :: positionStatus
  closeTime :: "int option"
  closeLongOrder :: "confirmation option"
  closeShortOrder :: "confirmation option"

record trade =
  cycle :: nat
  timestamp :: int
  pnl :: jsnum
  tPositions :: nat

record groupPnL =
  totalPnL :: jsnum
  trades :: "trade list"
  pnlCurrentCycle :: nat

text \<open>
  The runtime data of one group: its entry of \<open>activeGroups\<close>, with its entries of
  \<open>groupPositions\<close> (the field \<open>positions\<close>, which \<open>groupData.positions\<close> aliases) and of
  \<open>groupPnL\<close> (the field \<open>pnlBook\<close>). An API client is the account it was built from.
  The field \<open>groupData.totalPnL\<close>, which the engine never reads or writes after
  \<open>initializeGroup\<close>, is left out.
\<close>

record groupData =
  groupId :: string
  accounts :: "account list"
  pairs :: "hedgePair list"
  apiClients :: "account list"
  currentCycle :: nat
  isActive :: bool
  lastTradeTime :: "int option"
  positions :: "positionPair list"
  criticalError :: bool
  retryAfter :: "int option"
  pnlBook :: groupPnL

datatype event =
    PositionOpened positionPair
  | InsufficientMarginEvent string "string list" string
  | GroupDeactivated string string string
  | CriticalGroupError string string string int
  | PositionClosed positionPair
  | CloseError string string
  | PnlUpdated string jsnum jsnum
  | CycleCompleted string nat string groupPnL
  | GroupReactivated string
  | GroupError string string
  | TradingStopped

section \<open>The environment: exchange, random source, clock\<close>

text \<open>
  The exchange and \<open>Math.random\<close> are outside the engine. \<open>env\<close> scripts them: the
  reply to each exchange call may depend on how many calls were answered before it
  (\<open>tick\<close>), on the client and on the request; a rejected call is \<open>Inl\<close> with the
  message of the error. The n-th draw of \<open>Math.random\<close> is the fractional part of
  \<open>randomSource n\<close>, so that every draw lies in [0, 1).
\<close>

record env =
  placeOrderReply :: "nat \<Rightarrow> account \<Rightarrow> orderRequest \<Rightarrow> string + confirmation"
  symbolPriceReply :: "nat \<Rightarrow> account \<Rightarrow> string \<Rightarrow> string + jsval"
  setLeverageReply :: "nat \<Rightarrow> account \<Rightarrow> string \<Rightarrow> real \<Rightarrow> string + unit"
  positionsReply :: "nat \<Rightarrow> account \<Rightarrow> string + exchangePosition list"
  randomSource :: "nat \<Rightarrow> real"

record submitted =
  sClient :: account
  sRequest :: orderRequest
  sReply :: "string + confirmation"

text \<open>
  What a run changes outside the group data: the number of exchange calls and of
  random draws so far, the clock read by \<open>Date.now()\<close> (milliseconds; only \<open>sleep\<close>
  advances it), every order submitted with its reply, every positions query with its
  reply, the events emitted, and the engine's \<open>isRunning\<close> flag.
\<close>

record world =
  tick :: nat
  draws :: nat
  now :: int
  orderLog :: "submitted list"
  queryLog :: "(account \<times> (string + exchangePosition list)) list"
  events :: "event list"
  isRunning :: bool

definition sleep :: "int \<Rightarrow> world \<Rightarrow> world" where
  "sleep ms w = w\<lparr>now := now w + (if ms < 0 then 0 else ms)\<rparr>"

definition emit :: "event \<Rightarrow> world \<Rightarrow> world" where
  "emit e w = w\<lparr>events := events w @ [e]\<rparr>"

definition mathRandom :: "env \<Rightarrow> world \<Rightarrow> real \<times> world" where
  "mathRandom ex w = (frac (randomSource ex (draws w)), w\<lparr>draws := Suc (draws w)\<rparr>)"

definition setLeverage :: "env \<Rightarrow> account \<Rightarrow> string \<Rightarrow> real \<Rightarrow> world \<Rightarrow> (string + unit) \<times> world" where
  "setLeverage ex client sy lev w =
     (setLeverageReply ex (tick w) client sy lev, w\<lparr>tick := Suc (tick w)\<rparr>)"

definition getSymbolPrice :: "env \<Rightarrow> account \<Rightarrow> string \<Rightarrow> world \<Rightarrow> (string + jsval) \<times> world" where
  "getSymbolPrice ex client sy w =
     (symbolPriceReply ex (tick w) client sy, w\<lparr>tick := Suc (tick w)\<rparr>)"

definition getPositions :: "env \<Rightarrow> account \<Rightarrow> world \<Rightarrow> (string + exchangePosition list) \<times> world" where
  "getPositions ex client w =
     (let reply = positionsReply ex (tick w) client
      in (reply, w\<lparr>tick := Suc (tick w), queryLog := queryLog w @ [(client, reply)]\<rparr>))"

definition placeOrder :: "env \<Rightarrow> account \<Rightarrow> orderRequest \<Rightarrow> world \<Rightarrow> (string + confirmation) \<times> world" where
  "placeOrder ex client req w =
     (let reply = placeOrderReply ex (tick w) client req
      in (reply,
          w\<lparr>tick := Suc (tick w),
            orderLog := orderLog w @ [\<lparr>sClient = client, sRequest = req, sReply = reply\<rparr>]\<rparr>))"

section \<open>Profit and loss\<close>

text \<open>
  \<open>parseFloat(order.price || order.avgPrice || 0)\<close> and
  \<open>parseFloat(order.origQty || order.executedQty || 0)\<close>.
\<close>

definition reportedPrice :: "confirmation \<Rightarrow> jsnum" where
  "reportedPrice ord = parseFloat (jsOr (price ord) (jsOr (avgPrice ord) (Num 0)))"

definition reportedQty :: "confirmation \<Rightarrow> jsnum" where
  "reportedQty ord = parseFloat (jsOr (origQty ord) (jsOr (executedQty ord) (Num 0)))"

text \<open>
  An order that is missing (\<open>None\<close>) makes the field access throw; the \<open>catch\<close> returns 0.
\<close>

definition calculatePositionPnL :: "confirmation option \<Rightarrow> confirmation option \<Rightarrow> string \<Rightarrow> jsnum" where
  "calculatePositionPnL openOrder closeOrder side =
     (case openOrder of
        None \<Rightarrow> Some 0
      | Some oo \<Rightarrow>
          (case closeOrder of
             None \<Rightarrow> Some 0
           | Some co \<Rightarrow>
               (let openPrice = reportedPrice oo;
                    closePrice = reportedPrice co;
                    qty = reportedQty oo
                in if side = ''LONG'' then jsMul (jsSub closePrice openPrice) qty
                   else jsMul (jsSub openPrice closePrice) qty)))"

definition pairPnL :: "positionPair \<Rightarrow> jsnum" where
  "pairPnL position =
     jsAdd (calculatePositionPnL (Some (longOrder position)) (closeLongOrder position) ''LONG'')
           (calculatePositionPnL (Some (shortOrder position)) (closeShortOrder position) ''SHORT'')"

definition sumPairPnL :: "positionPair list \<Rightarrow> jsnum" where
  "sumPairPnL closedPositions = foldl (\<lambda>cyclePnL position. jsAdd cyclePnL (pairPnL position)) (Some 0) closedPositions"

definition updateGroupPnL :: "groupData \<Rightarrow> world \<Rightarrow> groupData \<times> world" where
  "updateGroupPnL gd w =
     (let book = pnlBook gd;
          closedPositions = filter (\<lambda>pos. status pos = Closed) (positions gd);
          cyclePnL = sumPairPnL closedPositions;
          book' = book\<lparr>totalPnL := jsAdd (totalPnL book) cyclePnL,
                       pnlCurrentCycle := currentCycle gd + 1,
                       trades := trades book @
                         [\<lparr>cycle = currentCycle gd + 1, timestamp = now w, pnl = cyclePnL,
                           tPositions = length closedPositions\<rparr>]\<rparr>
      in (gd\<lparr>pnlBook := book'\<rparr>,
          emit (PnlUpdated (groupId gd) cyclePnL (totalPnL book')) w))"


section \<open>Error classification\<close>

text \<open>An error is modelled by its message; an empty message is falsy.\<close>

definition isInsufficientMarginError :: "string \<Rightarrow> bool" where
  "isInsufficientMarginError message =
     (message \<noteq> [] \<and>
      (let errorStr = toLowerCase message
       in includesStr errorStr ''code: -2019'' \<or>
          includesStr errorStr ''margin is insufficient'' \<or>
          includesStr errorStr ''insufficient margin''))"

section \<open>Random choices of a cycle\<close>

definition supportedCoins :: "string list" where
  "supportedCoins = [''BTCUSDT'', ''ETHUSDT'', ''BNBUSDT'']"

definition generateRandomPositionSize :: "env \<Rightarrow> tradingConfig \<Rightarrow> world \<Rightarrow> real \<times> world" where
  "generateRandomPositionSize ex tc w =
     (let (mn, mx) = (case positionSizeRange tc of Some rng \<Rightarrow> rng | None \<Rightarrow> (400, 600));
          (r, w1) = mathRandom ex w;
          randomSize = r * (mx - mn) + mn
      in (real_of_int (round (randomSize * 100)) / 100, w1))"

definition generateRandomCloseTime :: "env \<Rightarrow> tradingConfig \<Rightarrow> world \<Rightarrow> int \<times> world" where
  "generateRandomCloseTime ex tc w =
     (let (mn, mx) = (case closeAfterMinutesRange tc of Some rng \<Rightarrow> rng | None \<Rightarrow> (30, 90));
          (r, w1) = mathRandom ex w;
          randomMinutes = r * (mx - mn) + mn
      in (round randomMinutes, w1))"

definition selectRandomCoin :: "env \<Rightarrow> world \<Rightarrow> string \<times> world" where
  "selectRandomCoin ex w =
     (let (r, w1) = mathRandom ex w;
          randomIndex = nat \<lfloor>r * real (length supportedCoins)\<rfloor>
      in (supportedCoins ! randomIndex, w1))"

section \<open>Opening a pair\<close>

definition findClient :: "account list \<Rightarrow> string \<Rightarrow> account option" where
  "findClient clients name = find (\<lambda>client. accountName client = name) clients"

definition marketOrder :: "string \<Rightarrow> string \<Rightarrow> jsnum \<Rightarrow> bool \<Rightarrow> orderRequest" where
  "marketOrder sy side qty reduce =
     \<lparr>oSymbol = sy, oSide = side, oType = ''MARKET'', oPositionSide = Some ''BOTH'',
      oQuantity = qty, oReduceOnly = reduce\<rparr>"

text \<open>
  The inner \<open>try\<close> that sets the leverage of both accounts: an error of the first call
  skips the second, and is only logged.
\<close>

definition setBothLeverage :: "env \<Rightarrow> account \<Rightarrow> account \<Rightarrow> string \<Rightarrow> real \<Rightarrow> world \<Rightarrow> world" where
  "setBothLeverage ex longClient shortClient sy lev w =
     (case setLeverage ex longClient sy lev w of
        (Inl leverageError, w1) \<Rightarrow> w1
      | (Inr ack, w1) \<Rightarrow> snd (setLeverage ex shortClient sy lev w1))"

text \<open>
  The body of the \<open>try\<close> of one attempt of \<open>openPairPositionWithRetry\<close>: \<open>Inl\<close> is the
  message of the error thrown, \<open>Inr\<close> the position pair recorded.
\<close>

definition attemptOpen ::
  "env \<Rightarrow> config \<Rightarrow> tradingConfig \<Rightarrow> hedgePair \<Rightarrow> string \<Rightarrow> real \<Rightarrow> groupData \<Rightarrow> world
     \<Rightarrow> (string + positionPair) \<times> world" where
  "attemptOpen ex cfg tc pair sy groupPositionSizeUSDT gd w =
     (case findClient (apiClients gd) (accountName (long pair)) of
        None \<Rightarrow> (Inl (''Could not find API clients for pair '' @ hpPairId pair), w)
      | Some longClient \<Rightarrow>
     (case findClient (apiClients gd) (accountName (short pair)) of
        None \<Rightarrow> (Inl (''Could not find API clients for pair '' @ hpPairId pair), w)
      | Some shortClient \<Rightarrow>
          (let lev = (if leverage cfg \<noteq> 0 then leverage cfg else 5);
               w1 = setBothLeverage ex longClient shortClient sy lev w
           in case getSymbolPrice ex longClient sy w1 of
                (Inl err, w2) \<Rightarrow> (Inl err, w2)
              | (Inr priceField, w2) \<Rightarrow>
                  (let currentPrice = parseFloat priceField;
                       qty = calculateQuantity tc groupPositionSizeUSDT currentPrice None sy
                   in case placeOrder ex longClient (marketOrder sy ''BUY'' qty False) w2 of
                        (Inl err, w3) \<Rightarrow> (Inl err, w3)
                      | (Inr longOrd, w3) \<Rightarrow>
                          (let (r, w4) = mathRandom ex w3;
                               w5 = sleep (interLegDelay cfg r) w4
                           in case placeOrder ex shortClient (marketOrder sy ''SELL'' qty False) w5 of
                                (Inl err, w6) \<Rightarrow> (Inl err, w6)
                              | (Inr shortOrd, w6) \<Rightarrow>
                                  (Inr \<lparr>pairId = hpPairId pair, symbol = sy, openTime = now w6,
                                        longOrder = longOrd, shortOrder = shortOrd,
                                        longAccount = long pair, shortAccount = short pair,
                                        quantity = qty,
                                        positionSizeUSDT = groupPositionSizeUSDT,
                                        openPrice = currentPrice, status = Open,
                                        closeTime = None, closeLongOrder = None,
                                        closeShortOrder = None\<rparr>, w6))))))"

datatype pairResult = Success positionPair | InsufficientMargin string | CriticalError string

definition maxRetries :: nat where
  "maxRetries = 3"

text \<open>
  The \<open>for\<close> loop over the attempts. The \<open>return\<close> after the loop is never reached from
  attempt 1 (the pass with \<open>attempt = maxRetries\<close> always returns); the model gives it
  the last error seen.
\<close>

function openPairAttempts ::
  "env \<Rightarrow> config \<Rightarrow> tradingConfig \<Rightarrow> hedgePair \<Rightarrow> string \<Rightarrow> real \<Rightarrow> groupData \<Rightarrow> nat \<Rightarrow> string
     \<Rightarrow> world \<Rightarrow> pairResult \<times> world" where
  "openPairAttempts ex cfg tc pair sy sz gd attempt lastError w =
     (if attempt \<le> maxRetries then
        (case attemptOpen ex cfg tc pair sy sz gd w of
           (Inr pp, w1) \<Rightarrow> (Success pp, w1)
         | (Inl err, w1) \<Rightarrow>
             if isInsufficientMarginError err then (InsufficientMargin err, w1)
             else if attempt = maxRetries then (CriticalError err, w1)
             else openPairAttempts ex cfg tc pair sy sz gd (attempt + 1) err
                    (sleep (1000 * int attempt) w1))
      else (CriticalError lastError, w))"
  by pat_completeness auto
termination
  by (relation "measure (\<lambda>(ex, cfg, tc, pair, sy, sz, gd, attempt, lastError, w). Suc maxRetries - attempt)")
    auto

declare openPairAttempts.simps [simp del]

definition openPairPositionWithRetry ::
  "env \<Rightarrow> config \<Rightarrow> tradingConfig \<Rightarrow> hedgePair \<Rightarrow> string \<Rightarrow> real \<Rightarrow> groupData \<Rightarrow> world
     \<Rightarrow> pairResult \<times> world" where
  "openPairPositionWithRetry ex cfg tc pair sy sz gd w = openPairAttempts ex cfg tc pair sy sz gd 1 [] w"

section \<open>Emergency unwind\<close>

text \<open>
  One pass of the loop of \<open>closePartialGroupPositions\<close>. Without both clients nothing is
  sent; an error of either order leaves the position as it is.
\<close>

definition closePartialPosition :: "env \<Rightarrow> groupData \<Rightarrow> positionPair \<Rightarrow> world \<Rightarrow> positionPair \<times> world" where
  "closePartialPosition ex gd position w =
     (case findClient (apiClients gd) (accountName (longAccount position)) of
        None \<Rightarrow> (position, w)
      | Some longClient \<Rightarrow>
     (case findClient (apiClients gd) (accountName (shortAccount position)) of
        None \<Rightarrow> (position, w)
      | Some shortClient \<Rightarrow>
          (case placeOrder ex longClient
                  (marketOrder (symbol position) ''SELL'' (quantity position) True) w of
             (Inl err, w1) \<Rightarrow> (position, w1)
           | (Inr closeLong, w1) \<Rightarrow>
               (case placeOrder ex shortClient
                       (marketOrder (symbol position) ''BUY'' (quantity position) True) w1 of
                  (Inl err, w2) \<Rightarrow> (position, w2)
                | (Inr closeShort, w2) \<Rightarrow> (position\<lparr>status := EmergencyClosed\<rparr>, w2)))))"

fun closePartialGroupPositions ::
  "env \<Rightarrow> groupData \<Rightarrow> positionPair list \<Rightarrow> world \<Rightarrow> positionPair list \<times> world" where
  "closePartialGroupPositions ex gd [] w = ([], w)"
| "closePartialGroupPositions ex gd (position # rest) w =
     (let (position', w1) = closePartialPosition ex gd position w;
          (rest', w2) = closePartialGroupPositions ex gd rest w1
      in (position' # rest', w2))"

section \<open>Opening the positions of a group\<close>

record openLoop =
  newPositions :: "positionPair list"
  insufficientMarginCount :: nat
  criticalErrorOccurred :: bool

text \<open>
  The \<open>for\<close> loop of \<open>openGroupPositions\<close> over the pairs that are left, with the local
  variables of the function in \<open>openLoop\<close>. A \<open>break\<close> returns the state.
\<close>

fun openPairsLoop ::
  "env \<Rightarrow> config \<Rightarrow> tradingConfig \<Rightarrow> string \<Rightarrow> real \<Rightarrow> hedgePair list \<Rightarrow> groupData \<Rightarrow> openLoop
     \<Rightarrow> world \<Rightarrow> groupData \<times> openLoop \<times> world" where
  "openPairsLoop ex cfg tc sy sz [] gd st w = (gd, st, w)"
| "openPairsLoop ex cfg tc sy sz (pair # rest) gd st w =
     (if criticalErrorOccurred st then (gd, st, w)
      else
        (case openPairPositionWithRetry ex cfg tc pair sy sz gd w of
           (Success pp, w1) \<Rightarrow>
             openPairsLoop ex cfg tc sy sz rest gd
               (st\<lparr>newPositions := newPositions st @ [pp]\<rparr>) (emit (PositionOpened pp) w1)
         | (InsufficientMargin err, w1) \<Rightarrow>
             (let st1 = st\<lparr>insufficientMarginCount := insufficientMarginCount st + 1\<rparr>;
                  w2 = emit (InsufficientMarginEvent (hpPairId pair)
                         [accountName (long pair), accountName (short pair)] err) w1
              in if insufficientMarginCount st1 = length (pairs gd)
                 then (gd\<lparr>isActive := False\<rparr>, st1,
                       emit (GroupDeactivated (groupId gd) ''all_pairs_insufficient_margin'' err) w2)
                 else openPairsLoop ex cfg tc sy sz rest gd st1 w2)
         | (CriticalError err, w1) \<Rightarrow>
             (let retry = now w1 + 10 * 60 * 1000;
                  gd1 = gd\<lparr>isActive := False, criticalError := True, retryAfter := Some retry\<rparr>;
                  w2 = emit (CriticalGroupError (groupId gd) (hpPairId pair) err retry) w1;
                  (unwound, w3) =
                    (if newPositions st \<noteq> []
                     then closePartialGroupPositions ex gd1 (newPositions st) w2
                     else (newPositions st, w2))
              in (gd1, st\<lparr>criticalErrorOccurred := True, newPositions := unwound\<rparr>, w3))))"

definition openGroupPositions ::
  "env \<Rightarrow> config \<Rightarrow> tradingConfig \<Rightarrow> groupData \<Rightarrow> string \<Rightarrow> world \<Rightarrow> nat \<times> groupData \<times> world" where
  "openGroupPositions ex cfg tc gd sy w =
     (let (groupPositionSizeUSDT, w1) = generateRandomPositionSize ex tc w;
          (gd1, st, w2) =
            openPairsLoop ex cfg tc sy groupPositionSizeUSDT (pairs gd) gd
              \<lparr>newPositions = [], insufficientMarginCount = 0, criticalErrorOccurred = False\<rparr> w1;
          gd2 = (if \<not> criticalErrorOccurred st
                 then gd1\<lparr>positions := positions gd1 @ newPositions st\<rparr> else gd1)
      in (length (newPositions st), gd2, w2))"

section \<open>Closing the positions of a group\<close>

text \<open>
  One pass of the loop of \<open>closeGroupPositions\<close>, for the symbol of the cycle. A client
  that is not found makes the call on it throw a \<open>TypeError\<close>; every error of the pass
  is reported as a \<open>closeError\<close> and leaves the position as it is.
\<close>

definition typeErrorMessage :: string where
  "typeErrorMessage = ''Cannot read properties of undefined (reading placeOrder)''"

definition closePosition :: "env \<Rightarrow> groupData \<Rightarrow> string \<Rightarrow> positionPair \<Rightarrow> world \<Rightarrow> positionPair \<times> world" where
  "closePosition ex gd sy position w =
     (case findClient (apiClients gd) (accountName (longAccount position)) of
        None \<Rightarrow> (position, emit (CloseError (pairId position) typeErrorMessage) w)
      | Some longClient \<Rightarrow>
          (case placeOrder ex longClient (marketOrder sy ''SELL'' (quantity position) True) w of
             (Inl err, w1) \<Rightarrow> (position, emit (CloseError (pairId position) err) w1)
           | (Inr closeLong, w1) \<Rightarrow>
               (case findClient (apiClients gd) (accountName (shortAccount position)) of
                  None \<Rightarrow> (position, emit (CloseError (pairId position) typeErrorMessage) w1)
                | Some shortClient \<Rightarrow>
                    (case placeOrder ex shortClient
                            (marketOrder sy ''BUY'' (quantity position) True) w1 of
                       (Inl err, w2) \<Rightarrow> (position, emit (CloseError (pairId position) err) w2)
                     | (Inr closeShort, w2) \<Rightarrow>
                         (let closedPos = position\<lparr>closeTime := Some (now w2),
                                                closeLongOrder := Some closeLong,
                                                closeShortOrder := Some closeShort,
                                                status := Closed\<rparr>
                          in (closedPos, emit (PositionClosed closedPos) w2))))))"

text \<open>
  The loop over \<open>groupPositions.filter(pos => pos.status === 'open')\<close>: the positions are
  updated in place, so the model passes over the ledger and skips what is not open.
\<close>

fun closeOpenPositions ::
  "env \<Rightarrow> groupData \<Rightarrow> string \<Rightarrow> positionPair list \<Rightarrow> world \<Rightarrow> positionPair list \<times> world" where
  "closeOpenPositions ex gd sy [] w = ([], w)"
| "closeOpenPositions ex gd sy (position # rest) w =
     (if status position = Open then
        (let (position', w1) = closePosition ex gd sy position w;
             (rest', w2) = closeOpenPositions ex gd sy rest w1
         in (position' # rest', w2))
      else
        (let (rest', w1) = closeOpenPositions ex gd sy rest w
         in (position # rest', w1)))"

definition closeGroupPositions :: "env \<Rightarrow> groupData \<Rightarrow> string \<Rightarrow> world \<Rightarrow> groupData \<times> world" where
  "closeGroupPositions ex gd sy w =
     (let (ledger, w1) = closeOpenPositions ex gd sy (positions gd) w
      in (gd\<lparr>positions := ledger\<rparr>, w1))"

section \<open>The loop of a group\<close>

text \<open>
  The check at the head of the loop of \<open>startGroupTrading\<close>:
  \<open>groupData.criticalError && groupData.retryAfter\<close> holds when the flag is set and the
  timestamp is a non-zero number. Before the timestamp the pass sleeps 30 seconds and
  ends (\<open>Wait\<close>); from the timestamp on the group is reactivated and the pass goes on.
\<close>

datatype gate = Wait | Proceed

definition quarantineGate :: "groupData \<Rightarrow> world \<Rightarrow> gate \<times> groupData \<times> world" where
  "quarantineGate gd w =
     (case retryAfter gd of
        None \<Rightarrow> (Proceed, gd, w)
      | Some t \<Rightarrow>
          if criticalError gd \<and> t \<noteq> 0 then
            (if now w < t then (Wait, gd, sleep 30000 w)
             else (Proceed, gd\<lparr>isActive := True, criticalError := False, retryAfter := None\<rparr>,
                   emit (GroupReactivated (groupId gd)) w))
          else (Proceed, gd, w))"

text \<open>
  The passes of the loop that end at this check, up to and including the check that lets
  the pass go on: the wait of a group for its retry time. The loop ends when the engine
  no longer runs.
\<close>

function awaitRetry :: "groupData \<Rightarrow> world \<Rightarrow> groupData \<times> world" where
  "awaitRetry gd w =
     (if isRunning w then
        (case quarantineGate gd w of
           (Wait, gd1, w1) \<Rightarrow> awaitRetry gd1 w1
         | (Proceed, gd1, w1) \<Rightarrow> (gd1, w1))
      else (gd, w))"
  by pat_completeness auto
termination
  by (relation "measure (\<lambda>(gd, w). case retryAfter gd of None \<Rightarrow> 0 | Some t \<Rightarrow> nat (t - now w))")
    (auto simp: quarantineGate_def sleep_def split: option.splits if_splits)

declare awaitRetry.simps [simp del]

text \<open>The body of the \<open>try\<close> of one pass: a trading cycle.\<close>

definition tradingCycle :: "env \<Rightarrow> config \<Rightarrow> tradingConfig \<Rightarrow> groupData \<Rightarrow> world \<Rightarrow> groupData \<times> world" where
  "tradingCycle ex cfg tc gd w =
     (let (selectedCoin, w1) = selectRandomCoin ex w;
          (openedPositions, gd1, w2) = openGroupPositions ex cfg tc gd selectedCoin w1
      in if criticalError gd1 then (gd1, w2)
         else if \<not> isActive gd1 then (gd1, w2)
         else
           (let (gd2, w3) =
                  (if openedPositions > 0 then
                     (let (randomCloseMinutes, w2a) = generateRandomCloseTime ex tc w2;
                          closeTm = randomCloseMinutes * 60 * 1000
                      in closeGroupPositions ex gd1 selectedCoin (sleep closeTm w2a))
                   else (gd1, w2));
                (gd3, w4) = updateGroupPnL gd2 w3;
                gd4 = gd3\<lparr>currentCycle := currentCycle gd3 + 1, lastTradeTime := Some (now w4)\<rparr>;
                w5 = emit (CycleCompleted (groupId gd4) (currentCycle gd4) selectedCoin (pnlBook gd4)) w4
            in (gd4, sleep 5000 w5)))"

text \<open>
  One pass of the loop. \<open>others\<close> is the number of other groups that are active when
  \<open>checkActiveGroups\<close> is called. No exchange error leaves the functions called in the
  \<open>try\<close> (each has its own \<open>catch\<close>), so the \<open>catch\<close> of the pass is not reached.
\<close>

datatype flow = Continue | Return

definition checkActiveGroups :: "nat \<Rightarrow> groupData \<Rightarrow> nat" where
  "checkActiveGroups others gd = (if isActive gd then 1 else 0) + others"

definition stopTrading :: "groupData \<Rightarrow> world \<Rightarrow> groupData \<times> world" where
  "stopTrading gd w = (gd\<lparr>isActive := False\<rparr>, emit TradingStopped (w\<lparr>isRunning := False\<rparr>))"

definition loopPass ::
  "env \<Rightarrow> config \<Rightarrow> tradingConfig \<Rightarrow> nat \<Rightarrow> groupData \<Rightarrow> world \<Rightarrow> flow \<times> groupData \<times> world" where
  "loopPass ex cfg tc others gd w =
     (case quarantineGate gd w of
        (Wait, gd1, w1) \<Rightarrow> (Continue, gd1, w1)
      | (Proceed, gd1, w1) \<Rightarrow>
          if checkActiveGroups others gd1 = 0 then
            (let (gd2, w2) = stopTrading gd1 w1 in (Return, gd2, w2))
          else if \<not> isActive gd1 then (Continue, gd1, sleep 30000 w1)
          else (let (gd2, w2) = tradingCycle ex cfg tc gd1 w1 in (Continue, gd2, w2)))"

text \<open>
  \<open>startGroupTrading\<close> for at most \<open>fuel\<close> passes; \<open>None\<close> when the loop has not ended by
  then. \<open>others\<close> gives the number of other active groups at each clock reading.
\<close>

fun startGroupTrading ::
  "nat \<Rightarrow> env \<Rightarrow> config \<Rightarrow> tradingConfig \<Rightarrow> (int \<Rightarrow> nat) \<Rightarrow> groupData \<Rightarrow> world
     \<Rightarrow> (groupData \<times> world) option" where
  "startGroupTrading 0 ex cfg tc others gd w = (if isRunning w then None else Some (gd, w))"
| "startGroupTrading (Suc fuel) ex cfg tc others gd w =
     (if isRunning w then
        (case loopPass ex cfg tc (others (now w)) gd w of
           (Return, gd1, w1) \<Rightarrow> Some (gd1, w1)
         | (Continue, gd1, w1) \<Rightarrow> startGroupTrading fuel ex cfg tc others gd1 w1)
      else Some (gd, w))"

section \<open>closeAllPositions\<close>

text \<open>
  The entries of \<open>result.errors\<close>, by the parts of their messages: an account with
  identical keys, a position whose order failed (symbol, account, message), an account
  whose processing failed (account, message).
\<close>

datatype closeFailure =
    InvalidKeys string
  | PositionFailed string string string
  | AccountFailed string string

record closeResult =
  success :: bool
  closedCount :: nat
  errors :: "closeFailure list"

text \<open>
  The filter \<open>Math.abs(parseFloat(position.positionAmt || 0)) > 0.001\<close>; a comparison
  with \<open>NaN\<close> is false.
\<close>

definition aboveDust :: "exchangePosition \<Rightarrow> bool" where
  "aboveDust position =
     (case parseFloat (jsOr (positionAmt position) (Num 0)) of
        None \<Rightarrow> False
      | Some amt \<Rightarrow> \<bar>amt\<bar> > 0.001)"

text \<open>
  The order that closes a live position: \<open>SELL\<close> when the amount is positive, else \<open>BUY\<close>,
  for the absolute amount, with \<open>reduceOnly\<close> and no \<open>positionSide\<close>.
\<close>

definition closingOrder :: "exchangePosition \<Rightarrow> orderRequest" where
  "closingOrder position =
     (let amt = parseFloat (positionAmt position);
          closeSide = (case amt of Some a \<Rightarrow> if a > 0 then ''SELL'' else ''BUY'' | None \<Rightarrow> ''BUY'')
      in \<lparr>oSymbol = xSymbol position, oSide = closeSide, oType = ''MARKET'',
          oPositionSide = None, oQuantity = map_option abs amt, oReduceOnly = True\<rparr>)"

fun closeLivePositions ::
  "env \<Rightarrow> account \<Rightarrow> exchangePosition list \<Rightarrow> closeResult \<Rightarrow> world \<Rightarrow> closeResult \<times> world" where
  "closeLivePositions ex acct [] result w = (result, w)"
| "closeLivePositions ex acct (position # rest) result w =
     (case placeOrder ex acct (closingOrder position) w of
        (Inr conf, w1) \<Rightarrow>
          closeLivePositions ex acct rest (result\<lparr>closedCount := closedCount result + 1\<rparr>)
            (sleep 500 w1)
      | (Inl err, w1) \<Rightarrow>
          closeLivePositions ex acct rest
            (result\<lparr>errors := errors result @ [PositionFailed (xSymbol position) (accountName acct) err],
                    success := False\<rparr>) w1)"

text \<open>
  The body of the loop over the accounts. A \<open>continue\<close> skips the pause of one second at
  the end of the body.
\<close>

definition closeAccount :: "env \<Rightarrow> account \<Rightarrow> closeResult \<Rightarrow> world \<Rightarrow> closeResult \<times> world" where
  "closeAccount ex acct result w =
     (if apiKey acct = secretKey acct then
        (result\<lparr>errors := errors result @ [InvalidKeys (accountName acct)]\<rparr>, w)
      else
        (case getPositions ex acct w of
           (Inl err, w1) \<Rightarrow>
             (result\<lparr>errors := errors result @ [AccountFailed (accountName acct) err],
                     success := False\<rparr>, sleep 1000 w1)
         | (Inr livePositions, w1) \<Rightarrow>
             if livePositions = [] then (result, w1)
             else
               (let openPositions = filter aboveDust livePositions
                in if openPositions = [] then (result, w1)
                   else
                     (let (result1, w2) = closeLivePositions ex acct openPositions result w1
                      in (result1, sleep 1000 w2)))))"

fun closeAccounts :: "env \<Rightarrow> account list \<Rightarrow> closeResult \<Rightarrow> world \<Rightarrow> closeResult \<times> world" where
  "closeAccounts ex [] result w = (result, w)"
| "closeAccounts ex (acct # rest) result w =
     (let (result1, w1) = closeAccount ex acct result w
      in closeAccounts ex rest result1 w1)"

definition closeAllPositions :: "env \<Rightarrow> account list \<Rightarrow> world \<Rightarrow> closeResult \<times> world" where
  "closeAllPositions ex accts w =
     (let result = \<lparr>success = True, closedCount = 0, errors = []\<rparr>
      in if accts = [] then (result, w) else closeAccounts ex accts result w)"

section \<open>Observations used in the properties\<close>

text \<open>
  For \<open>closeAllPositions\<close>: an account whose two keys differ, an order that the exchange
  rejected, the orders that a positions query calls for, and the summary of a run from
  one result and world to the next.
\<close>

definition validKeys :: "account \<Rightarrow> bool" where
  "validKeys acct = (apiKey acct \<noteq> secretKey acct)"

definition rejected :: "submitted \<Rightarrow> bool" where
  "rejected e = isl (sReply e)"

definition expectedOrders :: "(account \<times> (string + exchangePosition list)) \<Rightarrow> (account \<times> orderRequest) list" where
  "expectedOrders q =
     (case snd q of
        Inl err \<Rightarrow> []
      | Inr livePositions \<Rightarrow> map (\<lambda>p. (fst q, closingOrder p)) (filter aboveDust livePositions))"

definition closeTrace ::
  "account list \<Rightarrow> closeResult \<Rightarrow> world \<Rightarrow> closeResult \<Rightarrow> world \<Rightarrow> bool" where
  "closeTrace accts result w result' w' =
     (\<exists>qs os.
        queryLog w' = queryLog w @ qs \<and> orderLog w' = orderLog w @ os
        \<and> map fst qs = filter validKeys accts
        \<and> map (\<lambda>e. (sClient e, sRequest e)) os = concat (map expectedOrders qs)
        \<and> closedCount result' = closedCount result + length (filter (\<lambda>e. \<not> rejected e) os)
        \<and> length (errors result') =
            length (errors result) + length (filter (\<lambda>a. \<not> validKeys a) accts)
            + length (filter (\<lambda>q. isl (snd q)) qs) + length (filter rejected os)
        \<and> success result' =
            (success result \<and> filter (\<lambda>q. isl (snd q)) qs = [] \<and> filter rejected os = []))"

text \<open>
  For the quarantine: the group data after reactivation, and the number of polls of 30
  seconds from the clock reading \<open>n\<close> until the retry time \<open>t\<close> is reached.
\<close>

definition reactivated :: "groupData \<Rightarrow> groupData" where
  "reactivated gd = gd\<lparr>isActive := True, criticalError := False, retryAfter := None\<rparr>"

definition pollsUntil :: "int \<Rightarrow> int \<Rightarrow> int" where
  "pollsUntil t n = (if n < t then (t - n + 29999) div 30000 else 0)"

text \<open>
  For the open phase. \<open>allReportInsufficientMargin\<close>: each pair of the list, opened in
  turn as the loop of \<open>openGroupPositions\<close> does, reports insufficient margin.
  \<open>exhaustsRetries\<close>: the three attempts of a pair all fail, each with an error that is
  not classified as insufficient margin. \<open>openedBy\<close>: the position pair was recorded by
  a successful attempt of the group in this cycle.
\<close>

fun allReportInsufficientMargin ::
  "env \<Rightarrow> config \<Rightarrow> tradingConfig \<Rightarrow> string \<Rightarrow> real \<Rightarrow> groupData \<Rightarrow> hedgePair list \<Rightarrow> world \<Rightarrow> bool" where
  "allReportInsufficientMargin ex cfg tc sy sz gd [] w = True"
| "allReportInsufficientMargin ex cfg tc sy sz gd (pair # rest) w =
     (case openPairPositionWithRetry ex cfg tc pair sy sz gd w of
        (InsufficientMargin err, w1) \<Rightarrow>
          allReportInsufficientMargin ex cfg tc sy sz gd rest
            (emit (InsufficientMarginEvent (hpPairId pair)
               [accountName (long pair), accountName (short pair)] err) w1)
      | (Success pp, w1) \<Rightarrow> False
      | (CriticalError err, w1) \<Rightarrow> False)"


definition openedBy ::
  "env \<Rightarrow> config \<Rightarrow> tradingConfig \<Rightarrow> string \<Rightarrow> real \<Rightarrow> groupData \<Rightarrow> positionPair \<Rightarrow> bool" where
  "openedBy ex cfg tc sy sz gd position =
     (\<exists>pair w w'. attemptOpen ex cfg tc pair sy sz gd w = (Inr position, w'))"

definition isInsufficientMarginEvent :: "event \<Rightarrow> bool" where
  "isInsufficientMarginEvent e = (case e of InsufficientMarginEvent pid accts err \<Rightarrow> True | _ \<Rightarrow> False)"

definition isGroupDeactivated :: "event \<Rightarrow> bool" where
  "isGroupDeactivated e = (case e of GroupDeactivated gid reason err \<Rightarrow> True | _ \<Rightarrow> False)"

text \<open>
  The orders that \<open>closePartialGroupPositions\<close> logs for one position, with the position
  it leaves: a rejected long close, or an accepted long close and a rejected short close,
  both leaving the position as it was; or both closes accepted and the position marked
  \<open>EmergencyClosed\<close>. Each is a reduce-only market order for the symbol and the
  quantity of the position.
\<close>

definition unwindLog :: "groupData \<Rightarrow> positionPair \<Rightarrow> positionPair \<Rightarrow> submitted list \<Rightarrow> bool" where
  "unwindLog gd p p' es =
     (\<exists>longClient shortClient.
        findClient (apiClients gd) (accountName (longAccount p)) = Some longClient
        \<and> findClient (apiClients gd) (accountName (shortAccount p)) = Some shortClient
        \<and> ((\<exists>msg. es = [\<lparr>sClient = longClient,
                            sRequest = marketOrder (symbol p) ''SELL'' (quantity p) True,
                            sReply = Inl msg\<rparr>] \<and> p' = p)
           \<or> (\<exists>closeLong msg.
                 es = [\<lparr>sClient = longClient,
                        sRequest = marketOrder (symbol p) ''SELL'' (quantity p) True,
                        sReply = Inr closeLong\<rparr>,
                       \<lparr>sClient = shortClient,
                        sRequest = marketOrder (symbol p) ''BUY'' (quantity p) True,
                        sReply = Inl msg\<rparr>] \<and> p' = p)
           \<or> (\<exists>closeLong closeShort.
                 es = [\<lparr>sClient = longClient,
                        sRequest = marketOrder (symbol p) ''SELL'' (quantity p) True,
                        sReply = Inr closeLong\<rparr>,
                       \<lparr>sClient = shortClient,
                        sRequest = marketOrder (symbol p) ''BUY'' (quantity p) True,
                        sReply = Inr closeShort\<rparr>] \<and> p' = p\<lparr>status := EmergencyClosed\<rparr>)))"

section \<open>Example data\<close>

text \<open>Accounts, confirmations and a position used to run the model on concrete inputs.\<close>

definition accountA :: account where
  "accountA = \<lparr>accountName = ''A'', apiKey = ''keyA'', secretKey = ''secretA''\<rparr>"

definition accountB :: account where
  "accountB = \<lparr>accountName = ''B'', apiKey = ''keyB'', secretKey = ''secretB''\<rparr>"

definition accountC :: account where
  "accountC = \<lparr>accountName = ''C'', apiKey = ''keyC'', secretKey = ''secretC''\<rparr>"

definition accountD :: account where
  "accountD = \<lparr>accountName = ''D'', apiKey = ''keyD'', secretKey = ''secretD''\<rparr>"

definition filled :: "string \<Rightarrow> string \<Rightarrow> string \<Rightarrow> confirmation" where
  "filled oid pr qty =
     \<lparr>orderId = Str oid, price = Str pr, avgPrice = Undefined, origQty = Str qty,
      executedQty = Str qty\<rparr>"

definition flatPosition :: positionPair where
  "flatPosition =
     \<lparr>pairId = ''pair1'', symbol = ''BTCUSDT'', openTime = 0,
      longOrder = filled ''1'' ''100'' ''2'', shortOrder = filled ''2'' ''100'' ''2'',
      longAccount = accountA, shortAccount = accountB, quantity = Some 2,
      positionSizeUSDT = 20, openPrice = Some 100, status = Closed, closeTime = Some 60000,
      closeLongOrder = Some (filled ''3'' ''110'' ''2''),
      closeShortOrder = Some (filled ''4'' ''110'' ''2'')\<rparr>"

text \<open>
  A world at rest, and an exchange that answers every call the same way: orders by
  \<open>orders\<close>, a price query with the text \<open>priceText\<close>, a positions query with \<open>held\<close>;
  every random draw is 0.
\<close>

definition idleWorld :: world where
  "idleWorld =
     \<lparr>tick = 0, draws = 0, now = 1000000, orderLog = [], queryLog = [], events = [],
      isRunning = True\<rparr>"

definition scriptedExchange ::
  "(account \<Rightarrow> orderRequest \<Rightarrow> string + confirmation) \<Rightarrow> string \<Rightarrow> exchangePosition list \<Rightarrow> env" where
  "scriptedExchange orders priceText held =
     \<lparr>placeOrderReply = (\<lambda>n. orders),
      symbolPriceReply = (\<lambda>n client sy. Inr (Str priceText)),
      setLeverageReply = (\<lambda>n client sy lev. Inr ()),
      positionsReply = (\<lambda>n client. Inr held),
      randomSource = (\<lambda>n. 0)\<rparr>"

definition acceptOrder :: "account \<Rightarrow> orderRequest \<Rightarrow> string + confirmation" where
  "acceptOrder client req = Inr (filled ''9'' ''30000'' ''0.1'')"

definition quarantinedGroup :: groupData where
  "quarantinedGroup =
     \<lparr>groupId = ''group_1'', accounts = [accountA, accountB],
      pairs = [\<lparr>hpPairId = ''pair1'', long = accountA, short = accountB\<rparr>],
      apiClients = [accountA, accountB], currentCycle = 0, isActive = False,
      lastTradeTime = None, positions = [], criticalError = True,
      retryAfter = Some 1600000,
      pnlBook = \<lparr>totalPnL = Some 0, trades = [], pnlCurrentCycle = 0\<rparr>\<rparr>"

definition twoPairGroup :: groupData where
  "twoPairGroup =
     \<lparr>groupId = ''group_1'', accounts = [accountA, accountB, accountC, accountD],
      pairs = [\<lparr>hpPairId = ''pair1'', long = accountA, short = accountB\<rparr>,
               \<lparr>hpPairId = ''pair2'', long = accountC, short = accountD\<rparr>],
      apiClients = [accountA, accountB, accountC, accountD], currentCycle = 0,
      isActive = True, lastTradeTime = None, positions = [], criticalError = False,
      retryAfter = None,
      pnlBook = \<lparr>totalPnL = Some 0, trades = [], pnlCurrentCycle = 0\<rparr>\<rparr>"

definition rejectForMargin :: "account \<Rightarrow> orderRequest \<Rightarrow> string + confirmation" where
  "rejectForMargin client req = Inl ''API error: Margin is insufficient.''"

definition rejectLongOfC :: "account \<Rightarrow> orderRequest \<Rightarrow> string + confirmation" where
  "rejectLongOfC client req =
     (if accountName client = ''C'' \<and> \<not> oReduceOnly req then Inl ''Service unavailable''
      else Inr (filled ''9'' ''30000'' ''0.1''))"

definition openedPair1 :: positionPair where
  "openedPair1 =
     \<lparr>pairId = ''pair1'', symbol = ''BTCUSDT'', openTime = 1010000,
      longOrder = filled ''9'' ''30000'' ''0.1'', shortOrder = filled ''9'' ''30000'' ''0.1'',
      longAccount = accountA, shortAccount = accountB, quantity = Some (67 / 1000),
      positionSizeUSDT = 400, openPrice = Some 30000, status = Open, closeTime = None,
      closeLongOrder = None, closeShortOrder = None\<rparr>"

section \<open>Properties of the sizing functions\<close>





section \<open>Properties of the inter-leg delay\<close>










section \<open>Properties of the profit and loss\<close>

lemma jsMul_jsSub_swap: "jsMul (jsSub a b) q = jsNeg (jsMul (jsSub b a) q)"
  by (cases a; cases b; cases q) (simp_all add: jsMul_def jsSub_def jsNeg_def algebra_simps)

lemma calculatePositionPnL_LONG_SHORT:
  "calculatePositionPnL oo co ''LONG'' = jsNeg (calculatePositionPnL oo co ''SHORT'')"
proof (cases oo)
  case None
  then show ?thesis by (simp add: calculatePositionPnL_def jsNeg_def)
next
  case oo: (Some a)
  show ?thesis
  proof (cases co)
    case None
    with oo show ?thesis by (simp add: calculatePositionPnL_def jsNeg_def)
  next
    case (Some b)
    with oo show ?thesis
      by (simp add: calculatePositionPnL_def Let_def jsMul_jsSub_swap [of "reportedPrice b"])
  qed
qed

lemma jsAdd_jsNeg: "x \<noteq> None \<Longrightarrow> jsAdd (jsNeg x) x = Some 0"
  by (cases x) (simp_all add: jsAdd_def jsNeg_def)

lemma jsAdd_zero: "jsAdd a (Some 0) = a"
  by (cases a) (simp_all add: jsAdd_def)

lemma jsMul_finite: "a \<noteq> None \<Longrightarrow> b \<noteq> None \<Longrightarrow> jsMul a b \<noteq> None"
  by (cases a; cases b) (simp_all add: jsMul_def)

lemma jsSub_finite: "a \<noteq> None \<Longrightarrow> b \<noteq> None \<Longrightarrow> jsSub a b \<noteq> None"
  by (cases a; cases b) (simp_all add: jsSub_def)

lemma pairPnL_zero:
  assumes cl: "closeLongOrder p = Some cl" and cs: "closeShortOrder p = Some cs"
    and op: "reportedPrice (longOrder p) = reportedPrice (shortOrder p)"
    and cp: "reportedPrice cl = reportedPrice cs"
    and q: "reportedQty (longOrder p) = reportedQty (shortOrder p)"
    and fin: "reportedPrice (shortOrder p) \<noteq> None" "reportedPrice cs \<noteq> None"
      "reportedQty (shortOrder p) \<noteq> None"
  shows "pairPnL p = Some 0"
proof -
  let ?s = "calculatePositionPnL (Some (shortOrder p)) (Some cs) ''SHORT''"
  have l: "calculatePositionPnL (Some (longOrder p)) (Some cl) ''LONG'' = jsNeg ?s"
    by (simp add: calculatePositionPnL_def Let_def op cp q jsMul_jsSub_swap [of "reportedPrice cs"])
  have "?s \<noteq> None"
    using fin by (simp add: calculatePositionPnL_def Let_def jsMul_finite jsSub_finite)
  then show ?thesis
    by (simp add: pairPnL_def cl cs l jsAdd_jsNeg)
qed

lemma sumPairPnL_drop:
  "pairPnL p = Some 0 \<Longrightarrow> sumPairPnL (ps @ p # qs) = sumPairPnL (ps @ qs)"
  by (simp add: sumPairPnL_def jsAdd_zero)

lemma reportedPrice_filled_100: "reportedPrice (filled oid ''100'' qty) = Some 100"
  by (simp add: reportedPrice_def filled_def jsOr_def parseDecimal_def readSign_def isBlank_def
      isDigit_def digitVal_def readExponent_def scale10_def)

lemma reportedPrice_filled_110: "reportedPrice (filled oid ''110'' qty) = Some 110"
  by (simp add: reportedPrice_def filled_def jsOr_def parseDecimal_def readSign_def isBlank_def
      isDigit_def digitVal_def readExponent_def scale10_def)

lemma reportedQty_filled_2: "reportedQty (filled oid pr ''2'') = Some 2"
  by (simp add: reportedQty_def filled_def jsOr_def parseDecimal_def readSign_def isBlank_def
      isDigit_def digitVal_def readExponent_def scale10_def)

text \<open>
  Claim C10. \<open>calculatePositionPnL\<close> changes sign when the side changes from LONG to
  SHORT, for every pair of open and close orders (present or not). Hence a closed pair
  whose legs report the same numeric open price, close price and quantity has pair
  profit 0, and the sum of a cycle is the same with and without it.
\<close>

theorem calculatePositionPnL_antisymmetric:
  "calculatePositionPnL oo co ''LONG'' = jsNeg (calculatePositionPnL oo co ''SHORT'')
   \<and> (closeLongOrder p = Some cl \<and> closeShortOrder p = Some cs
        \<and> reportedPrice (longOrder p) = reportedPrice (shortOrder p)
        \<and> reportedPrice cl = reportedPrice cs
        \<and> reportedQty (longOrder p) = reportedQty (shortOrder p)
        \<and> reportedPrice (shortOrder p) \<noteq> None \<and> reportedPrice cs \<noteq> None
        \<and> reportedQty (shortOrder p) \<noteq> None
      \<longrightarrow> pairPnL p = Some 0 \<and> sumPairPnL (ps @ p # qs) = sumPairPnL (ps @ qs))"
proof (intro conjI impI)
  show "calculatePositionPnL oo co ''LONG'' = jsNeg (calculatePositionPnL oo co ''SHORT'')"
    by (rule calculatePositionPnL_LONG_SHORT)
next
  assume h: "closeLongOrder p = Some cl \<and> closeShortOrder p = Some cs
        \<and> reportedPrice (longOrder p) = reportedPrice (shortOrder p)
        \<and> reportedPrice cl = reportedPrice cs
        \<and> reportedQty (longOrder p) = reportedQty (shortOrder p)
        \<and> reportedPrice (shortOrder p) \<noteq> None \<and> reportedPrice cs \<noteq> None
        \<and> reportedQty (shortOrder p) \<noteq> None"
  then show zero: "pairPnL p = Some 0"
    by (intro pairPnL_zero [of p cl cs]) simp_all
  then show "sumPairPnL (ps @ p # qs) = sumPairPnL (ps @ qs)"
    by (rule sumPairPnL_drop)
qed

theorem calculatePositionPnL_antisymmetric_witness:
  "calculatePositionPnL (Some (filled ''1'' ''100'' ''2'')) (Some (filled ''3'' ''110'' ''2'')) ''LONG''
     = Some 20
   \<and> calculatePositionPnL (Some (filled ''1'' ''100'' ''2'')) (Some (filled ''3'' ''110'' ''2'')) ''SHORT''
     = Some (- 20)
   \<and> pairPnL flatPosition = Some 0
   \<and> sumPairPnL [flatPosition] = Some 0"
proof -
  note inst = calculatePositionPnL_antisymmetric
    [of "Some (filled ''1'' ''100'' ''2'')" "Some (filled ''3'' ''110'' ''2'')" flatPosition
        "filled ''3'' ''110'' ''2''" "filled ''4'' ''110'' ''2''" "[]" "[]"]
  have short: "calculatePositionPnL (Some (filled ''1'' ''100'' ''2'')) (Some (filled ''3'' ''110'' ''2''))
      ''SHORT'' = Some (- 20)"
    by (simp add: calculatePositionPnL_def Let_def reportedPrice_filled_100 reportedPrice_filled_110
        reportedQty_filled_2 jsMul_def jsSub_def)
  have long: "calculatePositionPnL (Some (filled ''1'' ''100'' ''2'')) (Some (filled ''3'' ''110'' ''2''))
      ''LONG'' = Some 20"
    using inst short by (simp add: jsNeg_def)
  have hyp: "closeLongOrder flatPosition = Some (filled ''3'' ''110'' ''2'')
      \<and> closeShortOrder flatPosition = Some (filled ''4'' ''110'' ''2'')
      \<and> reportedPrice (longOrder flatPosition) = reportedPrice (shortOrder flatPosition)
      \<and> reportedPrice (filled ''3'' ''110'' ''2'') = reportedPrice (filled ''4'' ''110'' ''2'')
      \<and> reportedQty (longOrder flatPosition) = reportedQty (shortOrder flatPosition)
      \<and> reportedPrice (shortOrder flatPosition) \<noteq> None
      \<and> reportedPrice (filled ''4'' ''110'' ''2'') \<noteq> None
      \<and> reportedQty (shortOrder flatPosition) \<noteq> None"
    by (simp add: flatPosition_def reportedPrice_filled_100 reportedPrice_filled_110
        reportedQty_filled_2)
  from inst hyp have zero: "pairPnL flatPosition = Some 0
      \<and> sumPairPnL ([] @ flatPosition # []) = sumPairPnL ([] @ [])" by blast
  then have "sumPairPnL [flatPosition] = Some 0" by (simp add: sumPairPnL_def jsAdd_def)
  with long short zero show ?thesis by blast
qed

section \<open>Properties of closeAllPositions\<close>

lemma sleep_logs [simp]:
  "orderLog (sleep ms w) = orderLog w" "queryLog (sleep ms w) = queryLog w"
  "events (sleep ms w) = events w" "tick (sleep ms w) = tick w"
  by (simp_all add: sleep_def)

lemma closeLivePositions_trace:
  "closeLivePositions ex acct ps result w = (result', w') \<Longrightarrow>
     \<exists>os. queryLog w' = queryLog w \<and> orderLog w' = orderLog w @ os
        \<and> map (\<lambda>e. (sClient e, sRequest e)) os = map (\<lambda>p. (acct, closingOrder p)) ps
        \<and> closedCount result' = closedCount result + length (filter (\<lambda>e. \<not> rejected e) os)
        \<and> length (errors result') = length (errors result) + length (filter rejected os)
        \<and> success result' = (success result \<and> filter rejected os = [])"
proof (induction ps arbitrary: result w)
  case Nil
  then show ?case by simp
next
  case (Cons p ps)
  let ?reply = "placeOrderReply ex (tick w) acct (closingOrder p)"
  let ?e = "\<lparr>sClient = acct, sRequest = closingOrder p, sReply = ?reply\<rparr>"
  let ?w1 = "w\<lparr>tick := Suc (tick w), orderLog := orderLog w @ [?e]\<rparr>"
  have po: "placeOrder ex acct (closingOrder p) w = (?reply, ?w1)"
    by (simp add: placeOrder_def Let_def)
  show ?case
  proof (cases ?reply)
    case (Inl err)
    let ?r1 = "result\<lparr>errors := errors result @ [PositionFailed (xSymbol p) (accountName acct) err],
                    success := False\<rparr>"
    from Cons.prems po Inl have "closeLivePositions ex acct ps ?r1 ?w1 = (result', w')"
      by simp
    from Cons.IH [OF this] obtain os where os:
      "queryLog w' = queryLog ?w1" "orderLog w' = orderLog ?w1 @ os"
      "map (\<lambda>e. (sClient e, sRequest e)) os = map (\<lambda>p. (acct, closingOrder p)) ps"
      "closedCount result' = closedCount ?r1 + length (filter (\<lambda>e. \<not> rejected e) os)"
      "length (errors result') = length (errors ?r1) + length (filter rejected os)"
      "success result' = (success ?r1 \<and> filter rejected os = [])"
      by blast
    have rej: "rejected ?e" using Inl by (simp add: rejected_def)
    show ?thesis
      by (rule exI [of _ "?e # os"]) (use os rej in simp)
  next
    case (Inr conf)
    let ?r1 = "result\<lparr>closedCount := closedCount result + 1\<rparr>"
    from Cons.prems po Inr have "closeLivePositions ex acct ps ?r1 (sleep 500 ?w1) = (result', w')"
      by simp
    from Cons.IH [OF this] obtain os where os:
      "queryLog w' = queryLog (sleep 500 ?w1)" "orderLog w' = orderLog (sleep 500 ?w1) @ os"
      "map (\<lambda>e. (sClient e, sRequest e)) os = map (\<lambda>p. (acct, closingOrder p)) ps"
      "closedCount result' = closedCount ?r1 + length (filter (\<lambda>e. \<not> rejected e) os)"
      "length (errors result') = length (errors ?r1) + length (filter rejected os)"
      "success result' = (success ?r1 \<and> filter rejected os = [])"
      by blast
    have acc: "\<not> rejected ?e" using Inr by (simp add: rejected_def)
    show ?thesis
      by (rule exI [of _ "?e # os"]) (use os acc in simp)
  qed
qed

lemma closeAccount_trace:
  assumes "closeAccount ex acct result w = (result', w')"
  shows "closeTrace [acct] result w result' w'"
proof (cases "apiKey acct = secretKey acct")
  case True
  with assms have "result' = result\<lparr>errors := errors result @ [InvalidKeys (accountName acct)]\<rparr>"
    and "w' = w" by (simp_all add: closeAccount_def)
  then show ?thesis using True
    unfolding closeTrace_def
    by (intro exI [of _ "[]"]) (simp add: validKeys_def)
next
  case False
  let ?reply = "positionsReply ex (tick w) acct"
  let ?w1 = "w\<lparr>tick := Suc (tick w), queryLog := queryLog w @ [(acct, ?reply)]\<rparr>"
  have gp: "getPositions ex acct w = (?reply, ?w1)"
    by (simp add: getPositions_def Let_def)
  show ?thesis
  proof (cases ?reply)
    case (Inl err)
    with assms False gp have
      "result' = result\<lparr>errors := errors result @ [AccountFailed (accountName acct) err], success := False\<rparr>"
      and "w' = sleep 1000 ?w1" by (simp_all add: closeAccount_def)
    then show ?thesis using False Inl
      unfolding closeTrace_def
      by (intro exI [of _ "[(acct, ?reply)]"] exI [of _ "[]"]) (simp add: validKeys_def expectedOrders_def)
  next
    case (Inr ps)
    show ?thesis
    proof (cases "filter aboveDust ps = []")
      case True
      with assms False gp Inr have "result' = result" and "w' = ?w1"
        by (auto simp: closeAccount_def Let_def split: if_splits)
      then show ?thesis using False Inr True
        unfolding closeTrace_def
        by (intro exI [of _ "[(acct, ?reply)]"] exI [of _ "[]"]) (simp add: validKeys_def expectedOrders_def)
    next
      case nonempty: False
      then have "ps \<noteq> []" by auto
      with assms False gp Inr nonempty obtain w2 where
        live: "closeLivePositions ex acct (filter aboveDust ps) result ?w1 = (result', w2)"
        and w': "w' = sleep 1000 w2"
        by (auto simp: closeAccount_def Let_def split: prod.splits)
      from closeLivePositions_trace [OF live] obtain os where os:
        "queryLog w2 = queryLog ?w1" "orderLog w2 = orderLog ?w1 @ os"
        "map (\<lambda>e. (sClient e, sRequest e)) os = map (\<lambda>p. (acct, closingOrder p)) (filter aboveDust ps)"
        "closedCount result' = closedCount result + length (filter (\<lambda>e. \<not> rejected e) os)"
        "length (errors result') = length (errors result) + length (filter rejected os)"
        "success result' = (success result \<and> filter rejected os = [])"
        by blast
      show ?thesis
        unfolding closeTrace_def
        by (intro exI [of _ "[(acct, ?reply)]"] exI [of _ os])
          (use os False Inr w' in \<open>simp add: validKeys_def expectedOrders_def\<close>)
    qed
  qed
qed

lemma closeTrace_Nil: "closeTrace [] result w result w"
  unfolding closeTrace_def by (intro exI [of _ "[]"]) simp

lemma closeTrace_Cons:
  assumes "closeTrace [a] r w r1 w1" and "closeTrace rest r1 w1 r' w'"
  shows "closeTrace (a # rest) r w r' w'"
proof -
  from assms(1) obtain qs1 os1 where 1:
    "queryLog w1 = queryLog w @ qs1" "orderLog w1 = orderLog w @ os1"
    "map fst qs1 = filter validKeys [a]"
    "map (\<lambda>e. (sClient e, sRequest e)) os1 = concat (map expectedOrders qs1)"
    "closedCount r1 = closedCount r + length (filter (\<lambda>e. \<not> rejected e) os1)"
    "length (errors r1) = length (errors r) + length (filter (\<lambda>a. \<not> validKeys a) [a])
       + length (filter (\<lambda>q. isl (snd q)) qs1) + length (filter rejected os1)"
    "success r1 = (success r \<and> filter (\<lambda>q. isl (snd q)) qs1 = [] \<and> filter rejected os1 = [])"
    unfolding closeTrace_def by blast
  from assms(2) obtain qs2 os2 where 2:
    "queryLog w' = queryLog w1 @ qs2" "orderLog w' = orderLog w1 @ os2"
    "map fst qs2 = filter validKeys rest"
    "map (\<lambda>e. (sClient e, sRequest e)) os2 = concat (map expectedOrders qs2)"
    "closedCount r' = closedCount r1 + length (filter (\<lambda>e. \<not> rejected e) os2)"
    "length (errors r') = length (errors r1) + length (filter (\<lambda>a. \<not> validKeys a) rest)
       + length (filter (\<lambda>q. isl (snd q)) qs2) + length (filter rejected os2)"
    "success r' = (success r1 \<and> filter (\<lambda>q. isl (snd q)) qs2 = [] \<and> filter rejected os2 = [])"
    unfolding closeTrace_def by blast
  show ?thesis
    unfolding closeTrace_def
    by (intro exI [of _ "qs1 @ qs2"] exI [of _ "os1 @ os2"]) (use 1 2 in auto)
qed

lemma closeAccounts_trace:
  "closeAccounts ex accts result w = (result', w') \<Longrightarrow> closeTrace accts result w result' w'"
proof (induction accts arbitrary: result w)
  case Nil
  then show ?case by (simp add: closeTrace_Nil)
next
  case (Cons a rest)
  obtain r1 w1 where step: "closeAccount ex a result w = (r1, w1)" by fastforce
  with Cons.prems have "closeAccounts ex rest r1 w1 = (result', w')" by simp
  from closeTrace_Cons [OF closeAccount_trace [OF step] Cons.IH [OF this]] show ?case .
qed

lemma closeAllPositions_trace:
  assumes "closeAllPositions ex accts w = (result, w')"
  shows "closeTrace accts \<lparr>success = True, closedCount = 0, errors = []\<rparr> w result w'"
proof (cases "accts = []")
  case True
  with assms show ?thesis by (simp add: closeAllPositions_def closeTrace_Nil)
next
  case False
  with assms show ?thesis by (simp add: closeAllPositions_def closeAccounts_trace)
qed

lemma parseDecimal_empty: "parseDecimal [] = None"
  by (simp add: parseDecimal_def readSign_def)

lemma aboveDust_iff:
  "aboveDust p \<longleftrightarrow> (\<exists>amt. parseFloat (positionAmt p) = Some amt \<and> \<bar>amt\<bar> > 1 / 1000)"
  by (cases "positionAmt p") (auto simp: aboveDust_def jsOr_def parseDecimal_empty split: option.splits)

lemma closingOrder_live:
  assumes "parseFloat (positionAmt p) = Some amt"
  shows "closingOrder p =
     \<lparr>oSymbol = xSymbol p, oSide = (if amt > 0 then ''SELL'' else ''BUY''), oType = ''MARKET'',
      oPositionSide = None, oQuantity = Some \<bar>amt\<bar>, oReduceOnly = True\<rparr>"
  using assms by (simp add: closingOrder_def)

lemma parseDecimal_0_01: "parseDecimal ''0.01'' = Some (1 / 100)"
  by (simp add: parseDecimal_def readSign_def isBlank_def isDigit_def digitVal_def
      readExponent_def scale10_def)

lemma parseDecimal_neg_0_0001: "parseDecimal ''-0.0001'' = Some (- 1 / 10000)"
  by (simp add: parseDecimal_def readSign_def isBlank_def isDigit_def digitVal_def
      readExponent_def scale10_def)

lemma parseDecimal_0_001: "parseDecimal ''0.001'' = Some (1 / 1000)"
  by (simp add: parseDecimal_def readSign_def isBlank_def isDigit_def digitVal_def
      readExponent_def scale10_def)

lemma closeAccount_orders:
  assumes keys: "validKeys acct" and held: "positionsReply ex (tick w) acct = Inr ps"
    and run: "closeAccount ex acct result w = (result', w')"
  shows "map (\<lambda>e. (sClient e, sRequest e)) (drop (length (orderLog w)) (orderLog w'))
         = map (\<lambda>p. (acct, closingOrder p)) (filter aboveDust ps)"
proof -
  let ?w1 = "w\<lparr>tick := Suc (tick w), queryLog := queryLog w @ [(acct, Inr ps)]\<rparr>"
  have gp: "getPositions ex acct w = (Inr ps, ?w1)"
    by (simp add: getPositions_def Let_def held)
  show ?thesis
  proof (cases "filter aboveDust ps = []")
    case True
    with run keys gp have "w' = ?w1"
      by (auto simp: closeAccount_def validKeys_def Let_def split: if_splits)
    with True show ?thesis by simp
  next
    case False
    then have "ps \<noteq> []" by auto
    with run keys gp False obtain w2 where
      live: "closeLivePositions ex acct (filter aboveDust ps) result ?w1 = (result', w2)"
      and w': "w' = sleep 1000 w2"
      by (auto simp: closeAccount_def validKeys_def Let_def split: prod.splits)
    from closeLivePositions_trace [OF live] obtain os where
      "orderLog w2 = orderLog ?w1 @ os"
      "map (\<lambda>e. (sClient e, sRequest e)) os = map (\<lambda>p. (acct, closingOrder p)) (filter aboveDust ps)"
      by blast
    with w' show ?thesis by simp
  qed
qed

lemma closeAllPositions_single:
  "closeAllPositions ex [acct] w = closeAccount ex acct \<lparr>success = True, closedCount = 0, errors = []\<rparr> w"
  by (simp add: closeAllPositions_def split: prod.splits)

lemma closeAllPositions_example:
  assumes keys: "validKeys acct"
    and held: "positionsReply ex (tick w) acct =
      Inr [\<lparr>xSymbol = ''BTCUSDT'', positionAmt = Str ''0.01''\<rparr>,
           \<lparr>xSymbol = ''ETHUSDT'', positionAmt = Str ''-0.0001''\<rparr>]"
  shows "map (\<lambda>e. (sClient e, sRequest e))
           (drop (length (orderLog w)) (orderLog (snd (closeAllPositions ex [acct] w))))
         = [(acct, \<lparr>oSymbol = ''BTCUSDT'', oSide = ''SELL'', oType = ''MARKET'',
                    oPositionSide = None, oQuantity = Some (1 / 100), oReduceOnly = True\<rparr>)]"
proof -
  let ?btc = "\<lparr>xSymbol = ''BTCUSDT'', positionAmt = Str ''0.01''\<rparr>"
  let ?eth = "\<lparr>xSymbol = ''ETHUSDT'', positionAmt = Str ''-0.0001''\<rparr>"
  have live: "filter aboveDust [?btc, ?eth] = [?btc]"
    by (simp add: aboveDust_def jsOr_def parseDecimal_0_01 parseDecimal_neg_0_0001)
  have ord: "closingOrder ?btc = \<lparr>oSymbol = ''BTCUSDT'', oSide = ''SELL'', oType = ''MARKET'',
                    oPositionSide = None, oQuantity = Some (1 / 100), oReduceOnly = True\<rparr>"
    by (simp add: closingOrder_def parseDecimal_0_01)
  obtain result w' where run:
    "closeAccount ex acct \<lparr>success = True, closedCount = 0, errors = []\<rparr> w = (result, w')"
    by fastforce
  from closeAccount_orders [OF keys held run] live ord run show ?thesis
    by (simp add: closeAllPositions_single)
qed

text \<open>
  Claim C8 as stated fails at the threshold: a position of exactly 0.001 is not below
  0.001, and no order is submitted for it.
\<close>

theorem closeAllPositions_threshold_counterexample:
  "parseFloat (Str ''0.001'') = Some (1 / 1000) \<and> \<not> \<bar>1 / 1000 :: real\<bar> < 1 / 1000
   \<and> orderLog (snd (closeAllPositions
        (scriptedExchange acceptOrder ''30000'' [\<lparr>xSymbol = ''BTCUSDT'', positionAmt = Str ''0.001''\<rparr>])
        [accountA] idleWorld)) = []
   \<and> closedCount (fst (closeAllPositions
        (scriptedExchange acceptOrder ''30000'' [\<lparr>xSymbol = ''BTCUSDT'', positionAmt = Str ''0.001''\<rparr>])
        [accountA] idleWorld)) = 0"
  by (simp add: parseDecimal_0_001 closeAllPositions_def closeAccount_def getPositions_def
      scriptedExchange_def idleWorld_def accountA_def aboveDust_def jsOr_def Let_def)


text \<open>
  Claim C8, amended at the threshold. A run of \<open>closeAllPositions\<close> queries every account
  whose keys differ, in order, whatever failed before (an account with identical keys
  gets an error entry and no query); the orders submitted are, for each answered query
  and in order, the closing orders of the positions whose absolute amount is strictly
  above 0.001, so a position of exactly 0.001, or with no numeric amount, is left;
  \<open>closedCount\<close> counts the accepted orders, \<open>errors\<close> holds one entry for each account
  with identical keys, each failed query and each rejected order. A closing order is a
  reduce-only market order for the absolute amount, \<open>SELL\<close> for a positive amount and
  \<open>BUY\<close> for a negative one. For the positions BTCUSDT 0.01 and ETHUSDT -0.0001 only
  the first is closed.
\<close>

theorem closeAllPositions_flattens:
  "(closeAllPositions ex accts w = (result, w') \<longrightarrow>
      (\<exists>qs os.
         queryLog w' = queryLog w @ qs \<and> orderLog w' = orderLog w @ os
         \<and> map fst qs = filter validKeys accts
         \<and> map (\<lambda>e. (sClient e, sRequest e)) os = concat (map expectedOrders qs)
         \<and> closedCount result = length (filter (\<lambda>e. \<not> rejected e) os)
         \<and> length (errors result) =
             length (filter (\<lambda>a. \<not> validKeys a) accts)
             + length (filter (\<lambda>q. isl (snd q)) qs) + length (filter rejected os)
         \<and> success result = (filter (\<lambda>q. isl (snd q)) qs = [] \<and> filter rejected os = [])))
   \<and> (aboveDust p \<longleftrightarrow> (\<exists>amt. parseFloat (positionAmt p) = Some amt \<and> \<bar>amt\<bar> > 1 / 1000))
   \<and> (parseFloat (positionAmt p) = Some amt \<longrightarrow>
        closingOrder p =
          \<lparr>oSymbol = xSymbol p, oSide = (if amt > 0 then ''SELL'' else ''BUY''),
           oType = ''MARKET'', oPositionSide = None, oQuantity = Some \<bar>amt\<bar>,
           oReduceOnly = True\<rparr>)
   \<and> (validKeys acct \<and>
        positionsReply ex (tick w) acct =
          Inr [\<lparr>xSymbol = ''BTCUSDT'', positionAmt = Str ''0.01''\<rparr>,
               \<lparr>xSymbol = ''ETHUSDT'', positionAmt = Str ''-0.0001''\<rparr>] \<longrightarrow>
        map (\<lambda>e. (sClient e, sRequest e))
          (drop (length (orderLog w)) (orderLog (snd (closeAllPositions ex [acct] w))))
        = [(acct, \<lparr>oSymbol = ''BTCUSDT'', oSide = ''SELL'', oType = ''MARKET'',
                   oPositionSide = None, oQuantity = Some (1 / 100), oReduceOnly = True\<rparr>)])"
proof (intro conjI impI)
  assume run: "closeAllPositions ex accts w = (result, w')"
  from closeAllPositions_trace [OF run]
  show "\<exists>qs os.
         queryLog w' = queryLog w @ qs \<and> orderLog w' = orderLog w @ os
         \<and> map fst qs = filter validKeys accts
         \<and> map (\<lambda>e. (sClient e, sRequest e)) os = concat (map expectedOrders qs)
         \<and> closedCount result = length (filter (\<lambda>e. \<not> rejected e) os)
         \<and> length (errors result) =
             length (filter (\<lambda>a. \<not> validKeys a) accts)
             + length (filter (\<lambda>q. isl (snd q)) qs) + length (filter rejected os)
         \<and> success result = (filter (\<lambda>q. isl (snd q)) qs = [] \<and> filter rejected os = [])"
    unfolding closeTrace_def by simp
next
  show "aboveDust p \<longleftrightarrow> (\<exists>amt. parseFloat (positionAmt p) = Some amt \<and> \<bar>amt\<bar> > 1 / 1000)"
    by (rule aboveDust_iff)
next
  assume "parseFloat (positionAmt p) = Some amt"
  then show "closingOrder p =
          \<lparr>oSymbol = xSymbol p, oSide = (if amt > 0 then ''SELL'' else ''BUY''),
           oType = ''MARKET'', oPositionSide = None, oQuantity = Some \<bar>amt\<bar>,
           oReduceOnly = True\<rparr>"
    by (rule closingOrder_live)
next
  assume "validKeys acct \<and>
        positionsReply ex (tick w) acct =
          Inr [\<lparr>xSymbol = ''BTCUSDT'', positionAmt = Str ''0.01''\<rparr>,
               \<lparr>xSymbol = ''ETHUSDT'', positionAmt = Str ''-0.0001''\<rparr>]"
  then show "map (\<lambda>e. (sClient e, sRequest e))
          (drop (length (orderLog w)) (orderLog (snd (closeAllPositions ex [acct] w))))
        = [(acct, \<lparr>oSymbol = ''BTCUSDT'', oSide = ''SELL'', oType = ''MARKET'',
                   oPositionSide = None, oQuantity = Some (1 / 100), oReduceOnly = True\<rparr>)]"
    using closeAllPositions_example by blast
qed

theorem closeAllPositions_flattens_witness:
  "map (\<lambda>e. (sClient e, sRequest e))
     (orderLog (snd (closeAllPositions
        (scriptedExchange acceptOrder ''30000''
           [\<lparr>xSymbol = ''BTCUSDT'', positionAmt = Str ''0.01''\<rparr>,
            \<lparr>xSymbol = ''ETHUSDT'', positionAmt = Str ''-0.0001''\<rparr>])
        [accountA] idleWorld)))
   = [(accountA, \<lparr>oSymbol = ''BTCUSDT'', oSide = ''SELL'', oType = ''MARKET'',
                   oPositionSide = None, oQuantity = Some (1 / 100), oReduceOnly = True\<rparr>)]
   \<and> aboveDust \<lparr>xSymbol = ''BTCUSDT'', positionAmt = Str ''0.01''\<rparr>
   \<and> \<not> aboveDust \<lparr>xSymbol = ''ETHUSDT'', positionAmt = Str ''-0.0001''\<rparr>"
proof -
  let ?held = "[\<lparr>xSymbol = ''BTCUSDT'', positionAmt = Str ''0.01''\<rparr>,
            \<lparr>xSymbol = ''ETHUSDT'', positionAmt = Str ''-0.0001''\<rparr>]"
  let ?ex = "scriptedExchange acceptOrder ''30000'' ?held"
  have hyp: "validKeys accountA \<and> positionsReply ?ex (tick idleWorld) accountA = Inr ?held"
    by (simp add: validKeys_def accountA_def scriptedExchange_def)
  have empty: "orderLog idleWorld = []" by (simp add: idleWorld_def)
  have btc: "\<exists>amt. parseFloat (positionAmt \<lparr>xSymbol = ''BTCUSDT'', positionAmt = Str ''0.01''\<rparr>) = Some amt
      \<and> \<bar>amt\<bar> > 1 / 1000"
    by (intro exI [of _ "1 / 100"]) (simp add: parseDecimal_0_01)
  have eth: "\<not> (\<exists>amt. parseFloat (positionAmt \<lparr>xSymbol = ''ETHUSDT'', positionAmt = Str ''-0.0001''\<rparr>) = Some amt
      \<and> \<bar>amt\<bar> > 1 / 1000)"
    by (simp add: parseDecimal_neg_0_0001)
  have orders: "map (\<lambda>e. (sClient e, sRequest e))
       (drop (length (orderLog idleWorld)) (orderLog (snd (closeAllPositions ?ex [accountA] idleWorld))))
     = [(accountA, \<lparr>oSymbol = ''BTCUSDT'', oSide = ''SELL'', oType = ''MARKET'',
                   oPositionSide = None, oQuantity = Some (1 / 100), oReduceOnly = True\<rparr>)]"
    using closeAllPositions_flattens [of ?ex "[accountA]" idleWorld _ _ _ _ accountA] hyp by blast
  have a1: "aboveDust \<lparr>xSymbol = ''BTCUSDT'', positionAmt = Str ''0.01''\<rparr>"
    using closeAllPositions_flattens [of ?ex "[accountA]" idleWorld _ _
        "\<lparr>xSymbol = ''BTCUSDT'', positionAmt = Str ''0.01''\<rparr>"] btc by blast
  have a2: "\<not> aboveDust \<lparr>xSymbol = ''ETHUSDT'', positionAmt = Str ''-0.0001''\<rparr>"
    using closeAllPositions_flattens [of ?ex "[accountA]" idleWorld _ _
        "\<lparr>xSymbol = ''ETHUSDT'', positionAmt = Str ''-0.0001''\<rparr>"] eth by blast
  from orders empty a1 a2 show ?thesis by simp
qed

section \<open>Properties of the quarantine\<close>

lemma quarantineGate_wait:
  "criticalError gd \<Longrightarrow> retryAfter gd = Some t \<Longrightarrow> t \<noteq> 0 \<Longrightarrow> now w < t \<Longrightarrow>
     quarantineGate gd w = (Wait, gd, sleep 30000 w)"
  by (simp add: quarantineGate_def)

lemma quarantineGate_reactivate:
  "criticalError gd \<Longrightarrow> retryAfter gd = Some t \<Longrightarrow> t \<noteq> 0 \<Longrightarrow> t \<le> now w \<Longrightarrow>
     quarantineGate gd w = (Proceed, reactivated gd, emit (GroupReactivated (groupId gd)) w)"
  by (simp add: quarantineGate_def reactivated_def)

lemma quarantineGate_reactivated:
  "quarantineGate (reactivated gd) w = (Proceed, reactivated gd, w)"
  by (simp add: quarantineGate_def reactivated_def)

lemma pollsUntil_step:
  assumes "n < t"
  shows "pollsUntil t n = 1 + pollsUntil t (n + 30000)"
proof (cases "n + 30000 < t")
  case True
  have "t - n + 29999 = (t - (n + 30000) + 29999) + 30000 * 1" by simp
  then have "(t - n + 29999) div 30000 = ((t - (n + 30000) + 29999) + 30000 * 1) div 30000"
    by (rule arg_cong)
  also have "\<dots> = 1 + (t - (n + 30000) + 29999) div 30000"
    by (rule div_mult_self2) simp
  finally show ?thesis using assms True by (simp add: pollsUntil_def)
next
  case False
  have "t - n + 29999 = (t - n - 1) + 30000 * 1" by simp
  then have "(t - n + 29999) div 30000 = ((t - n - 1) + 30000 * 1) div 30000"
    by (rule arg_cong)
  also have "\<dots> = 1 + (t - n - 1) div 30000"
    by (rule div_mult_self2) simp
  also have "(t - n - 1) div 30000 = 0"
    using assms False by (intro div_pos_pos_trivial) simp_all
  finally show ?thesis using assms False by (simp add: pollsUntil_def)
qed

lemma pollsUntil_done: "t \<le> n \<Longrightarrow> pollsUntil t n = 0"
  by (simp add: pollsUntil_def)

lemma pollsUntil_reaches: "t \<le> n + 30000 * pollsUntil t n"
proof (cases "n < t")
  case True
  define x where "x = t - n + 29999"
  have "x = 30000 * (x div 30000) + x mod 30000" by simp
  moreover have "x mod 30000 < 30000" by simp
  ultimately have "x - 29999 \<le> 30000 * (x div 30000)" by linarith
  then show ?thesis using True by (simp add: pollsUntil_def x_def)
next
  case False
  then show ?thesis by (simp add: pollsUntil_def)
qed

lemma pollsUntil_least:
  assumes "0 < pollsUntil t n"
  shows "n + 30000 * (pollsUntil t n - 1) < t"
proof -
  from assms have lt: "n < t" by (simp add: pollsUntil_def split: if_splits)
  define x where "x = t - n + 29999"
  have "x = 30000 * (x div 30000) + x mod 30000" by simp
  moreover have "0 \<le> x mod 30000" by simp
  ultimately have "30000 * (x div 30000) \<le> x" by linarith
  then have "30000 * (x div 30000 - 1) < t - n" by (simp add: x_def algebra_simps)
  then show ?thesis using lt by (simp add: pollsUntil_def x_def)
qed

lemma awaitRetry_quarantined:
  "isRunning w \<Longrightarrow> criticalError gd \<Longrightarrow> retryAfter gd = Some t \<Longrightarrow> t \<noteq> 0 \<Longrightarrow>
     awaitRetry gd w =
       (reactivated gd,
        emit (GroupReactivated (groupId gd)) (w\<lparr>now := now w + 30000 * pollsUntil t (now w)\<rparr>))"
proof (induction gd w rule: awaitRetry.induct)
  case (1 gd w)
  show ?case
  proof (cases "now w < t")
    case True
    have gate: "quarantineGate gd w = (Wait, gd, sleep 30000 w)"
      using "1.prems" True by (simp add: quarantineGate_wait)
    have run: "isRunning (sleep 30000 w)" using "1.prems" by (simp add: sleep_def)
    have ih: "awaitRetry gd (sleep 30000 w) =
       (reactivated gd,
        emit (GroupReactivated (groupId gd))
          ((sleep 30000 w)\<lparr>now := now (sleep 30000 w) + 30000 * pollsUntil t (now (sleep 30000 w))\<rparr>))"
      using "1.IH" [OF "1.prems"(1) gate [symmetric] refl refl run "1.prems"(2,3,4)] .
    have "awaitRetry gd w = awaitRetry gd (sleep 30000 w)"
      using "1.prems"(1) gate by (subst awaitRetry.simps) simp
    also note ih
    finally show ?thesis
      using pollsUntil_step [OF True] by (simp add: sleep_def algebra_simps)
  next
    case False
    then have gate: "quarantineGate gd w = (Proceed, reactivated gd, emit (GroupReactivated (groupId gd)) w)"
      using "1.prems" by (simp add: quarantineGate_reactivate)
    have "awaitRetry gd w = (reactivated gd, emit (GroupReactivated (groupId gd)) w)"
      using "1.prems"(1) gate by (subst awaitRetry.simps) simp
    then show ?thesis using False by (simp add: pollsUntil_done)
  qed
qed

lemma loopPass_wait:
  "criticalError gd \<Longrightarrow> retryAfter gd = Some t \<Longrightarrow> t \<noteq> 0 \<Longrightarrow> now w < t \<Longrightarrow>
     loopPass ex cfg tc others gd w = (Continue, gd, sleep 30000 w)"
  by (simp add: loopPass_def quarantineGate_wait)

text \<open>
  Claim C3. For a quarantined group (critical-error flag set, retry time \<open>t\<close>) of a running
  engine: a pass of the loop before \<open>t\<close> only sleeps 30 seconds; the check at or after \<open>t\<close>
  sets the group active, clears the flag and the retry time and emits one reactivation
  event; the check on the reactivated group changes nothing and emits nothing; and the
  wait as a whole ends, after the least number of 30-second polls that reaches \<open>t\<close>,
  with the group reactivated and exactly that one event emitted.
\<close>

theorem quarantine_poll_reactivates_once:
  assumes "isRunning w" and "criticalError gd" and "retryAfter gd = Some t" and "t \<noteq> 0"
  shows "(now w < t \<longrightarrow> loopPass ex cfg tc others gd w = (Continue, gd, sleep 30000 w))
       \<and> (t \<le> now w \<longrightarrow>
            quarantineGate gd w
              = (Proceed, reactivated gd, emit (GroupReactivated (groupId gd)) w))
       \<and> quarantineGate (reactivated gd) w2 = (Proceed, reactivated gd, w2)
       \<and> awaitRetry gd w
            = (reactivated gd,
               emit (GroupReactivated (groupId gd))
                 (w\<lparr>now := now w + 30000 * pollsUntil t (now w)\<rparr>))
       \<and> events (snd (awaitRetry gd w)) = events w @ [GroupReactivated (groupId gd)]
       \<and> isActive (fst (awaitRetry gd w)) \<and> \<not> criticalError (fst (awaitRetry gd w))
       \<and> retryAfter (fst (awaitRetry gd w)) = None
       \<and> t \<le> now (snd (awaitRetry gd w))
       \<and> (0 < pollsUntil t (now w) \<longrightarrow> now w + 30000 * (pollsUntil t (now w) - 1) < t)"
proof -
  note await = awaitRetry_quarantined [OF assms]
  have "now w < t \<longrightarrow> loopPass ex cfg tc others gd w = (Continue, gd, sleep 30000 w)"
    using assms by (simp add: loopPass_wait)
  moreover have "t \<le> now w \<longrightarrow>
      quarantineGate gd w = (Proceed, reactivated gd, emit (GroupReactivated (groupId gd)) w)"
    using assms by (simp add: quarantineGate_reactivate)
  moreover have "quarantineGate (reactivated gd) w2 = (Proceed, reactivated gd, w2)"
    by (rule quarantineGate_reactivated)
  moreover have "events (snd (awaitRetry gd w)) = events w @ [GroupReactivated (groupId gd)]"
    by (simp add: await emit_def)
  moreover have "isActive (fst (awaitRetry gd w)) \<and> \<not> criticalError (fst (awaitRetry gd w))
      \<and> retryAfter (fst (awaitRetry gd w)) = None"
    by (simp add: await reactivated_def)
  moreover have "t \<le> now (snd (awaitRetry gd w))"
    using pollsUntil_reaches [of t "now w"] by (simp add: await emit_def)
  moreover have "0 < pollsUntil t (now w) \<longrightarrow> now w + 30000 * (pollsUntil t (now w) - 1) < t"
    using pollsUntil_least by blast
  ultimately show ?thesis using await by blast
qed

theorem quarantine_poll_reactivates_once_witness:
  "events (snd (awaitRetry quarantinedGroup idleWorld)) = [GroupReactivated ''group_1'']
   \<and> now (snd (awaitRetry quarantinedGroup idleWorld)) = 1600000
   \<and> isActive (fst (awaitRetry quarantinedGroup idleWorld))
   \<and> retryAfter (fst (awaitRetry quarantinedGroup idleWorld)) = None
   \<and> loopPass (scriptedExchange acceptOrder ''30000'' []) defaultConfig defaultTradingConfig 0
        quarantinedGroup idleWorld = (Continue, quarantinedGroup, sleep 30000 idleWorld)"
proof -
  have h: "isRunning idleWorld" "criticalError quarantinedGroup"
    "retryAfter quarantinedGroup = Some 1600000" "(1600000::int) \<noteq> 0"
    by (simp_all add: idleWorld_def quarantinedGroup_def)
  note inst = quarantine_poll_reactivates_once [OF h,
      of "scriptedExchange acceptOrder ''30000'' []" defaultConfig defaultTradingConfig 0 idleWorld]
  have before: "now idleWorld < 1600000" by (simp add: idleWorld_def)
  have polls: "pollsUntil 1600000 1000000 = 20"
    by (simp add: pollsUntil_def)
  have "awaitRetry quarantinedGroup idleWorld
      = (reactivated quarantinedGroup,
         emit (GroupReactivated (groupId quarantinedGroup))
           (idleWorld\<lparr>now := now idleWorld + 30000 * pollsUntil 1600000 (now idleWorld)\<rparr>))"
    using inst by blast
  then have "now (snd (awaitRetry quarantinedGroup idleWorld)) = 1600000"
    by (simp add: polls emit_def idleWorld_def)
  moreover have "events (snd (awaitRetry quarantinedGroup idleWorld))
      = events idleWorld @ [GroupReactivated (groupId quarantinedGroup)]"
    using inst by blast
  then have "events (snd (awaitRetry quarantinedGroup idleWorld)) = [GroupReactivated ''group_1'']"
    by (simp add: idleWorld_def quarantinedGroup_def)
  moreover have "isActive (fst (awaitRetry quarantinedGroup idleWorld))
      \<and> retryAfter (fst (awaitRetry quarantinedGroup idleWorld)) = None"
    using inst by blast
  moreover have "loopPass (scriptedExchange acceptOrder ''30000'' []) defaultConfig defaultTradingConfig 0
        quarantinedGroup idleWorld = (Continue, quarantinedGroup, sleep 30000 idleWorld)"
    using inst before by blast
  ultimately show ?thesis by blast
qed

section \<open>Properties of the open phase\<close>

lemma emit_fields [simp]:
  "events (emit e w) = events w @ [e]" "orderLog (emit e w) = orderLog w"
  "queryLog (emit e w) = queryLog w" "tick (emit e w) = tick w" "now (emit e w) = now w"
  "draws (emit e w) = draws w" "isRunning (emit e w) = isRunning w"
  by (simp_all add: emit_def)

lemma openPairAttempts_success:
  "attempt \<le> maxRetries \<Longrightarrow> attemptOpen ex cfg tc pair sy sz gd w = (Inr pp, w1) \<Longrightarrow>
     openPairAttempts ex cfg tc pair sy sz gd attempt lastError w = (Success pp, w1)"
  by (subst openPairAttempts.simps) simp

lemma openPairAttempts_margin:
  "attempt \<le> maxRetries \<Longrightarrow> attemptOpen ex cfg tc pair sy sz gd w = (Inl err, w1) \<Longrightarrow>
     isInsufficientMarginError err \<Longrightarrow>
     openPairAttempts ex cfg tc pair sy sz gd attempt lastError w = (InsufficientMargin err, w1)"
  by (subst openPairAttempts.simps) simp



lemma sleep_fields [simp]:
  "draws (sleep ms w) = draws w" "isRunning (sleep ms w) = isRunning w"
  "now w \<le> now (sleep ms w)"
  by (simp_all add: sleep_def)

lemma placeOrder_fields:
  "placeOrder ex client req w = (reply, w') \<Longrightarrow>
     orderLog w' = orderLog w @ [\<lparr>sClient = client, sRequest = req, sReply = reply\<rparr>]
     \<and> reply = placeOrderReply ex (tick w) client req
     \<and> events w' = events w \<and> queryLog w' = queryLog w \<and> tick w' = Suc (tick w)
     \<and> now w' = now w \<and> draws w' = draws w \<and> isRunning w' = isRunning w"
  by (auto simp: placeOrder_def Let_def)

lemma placeOrder_log:
  "placeOrder ex client req w = (reply, w') \<Longrightarrow>
     orderLog w' = orderLog w @ [\<lparr>sClient = client, sRequest = req, sReply = reply\<rparr>]
     \<and> events w' = events w \<and> queryLog w' = queryLog w \<and> tick w' = Suc (tick w)
     \<and> now w' = now w \<and> draws w' = draws w \<and> isRunning w' = isRunning w"
  by (auto simp: placeOrder_def Let_def)

lemma setBothLeverage_fields [simp]:
  "orderLog (setBothLeverage ex lc sc sy lev w) = orderLog w"
  "events (setBothLeverage ex lc sc sy lev w) = events w"
  "queryLog (setBothLeverage ex lc sc sy lev w) = queryLog w"
  "now (setBothLeverage ex lc sc sy lev w) = now w"
  "draws (setBothLeverage ex lc sc sy lev w) = draws w"
  "isRunning (setBothLeverage ex lc sc sy lev w) = isRunning w"
  by (simp_all add: setBothLeverage_def setLeverage_def split: sum.splits)

lemma getSymbolPrice_fields:
  "getSymbolPrice ex client sy w = (reply, w') \<Longrightarrow>
     orderLog w' = orderLog w \<and> events w' = events w \<and> queryLog w' = queryLog w
     \<and> now w' = now w \<and> draws w' = draws w \<and> isRunning w' = isRunning w"
  by (auto simp: getSymbolPrice_def)

lemma mathRandom_fields:
  "mathRandom ex w = (r, w') \<Longrightarrow>
     orderLog w' = orderLog w \<and> events w' = events w \<and> queryLog w' = queryLog w
     \<and> now w' = now w \<and> tick w' = tick w \<and> isRunning w' = isRunning w
     \<and> 0 \<le> r \<and> r < 1"
  by (auto simp: mathRandom_def frac_lt_1)

lemma attemptOpen_frame:
  assumes "attemptOpen ex cfg tc pair sy sz gd w = (res, w')"
  shows "events w' = events w \<and> queryLog w' = queryLog w \<and> isRunning w' = isRunning w"
  using assms
  by (auto simp: attemptOpen_def Let_def sleep_def
      dest!: placeOrder_fields getSymbolPrice_fields mathRandom_fields
      split: option.splits sum.splits prod.splits)

lemma openPairAttempts_frame:
  "openPairAttempts ex cfg tc pair sy sz gd attempt lastError w = (res, w') \<Longrightarrow>
     events w' = events w \<and> queryLog w' = queryLog w \<and> isRunning w' = isRunning w"
proof (induction ex cfg tc pair sy sz gd attempt lastError w rule: openPairAttempts.induct)
  case (1 ex cfg tc pair sy sz gd attempt lastError w)
  show ?case
  proof (cases "attempt \<le> maxRetries")
    case False
    with "1.prems" show ?thesis by (subst (asm) openPairAttempts.simps) simp
  next
    case True
    obtain r w1 where att: "attemptOpen ex cfg tc pair sy sz gd w = (r, w1)" by fastforce
    note fr = attemptOpen_frame [OF att]
    show ?thesis
    proof (cases r)
      case (Inr pp)
      with "1.prems" True att fr show ?thesis by (subst (asm) openPairAttempts.simps) simp
    next
      case (Inl err)
      show ?thesis
      proof (cases "isInsufficientMarginError err \<or> attempt = maxRetries")
        case True
        with "1.prems" \<open>attempt \<le> maxRetries\<close> att Inl fr show ?thesis
          by (subst (asm) openPairAttempts.simps) (auto split: if_splits)
      next
        case False
        with "1.prems" \<open>attempt \<le> maxRetries\<close> att Inl have rec:
          "openPairAttempts ex cfg tc pair sy sz gd (attempt + 1) err (sleep (1000 * int attempt) w1) = (res, w')"
          by (subst (asm) openPairAttempts.simps) simp
        from False have nm: "\<not> isInsufficientMarginError err" and nl: "attempt \<noteq> maxRetries"
          by simp_all
        from "1.IH" [OF \<open>attempt \<le> maxRetries\<close> att [symmetric] Inl nm nl rec] fr
        show ?thesis by simp
      qed
    qed
  qed
qed

lemma openPairPositionWithRetry_frame:
  "openPairPositionWithRetry ex cfg tc pair sy sz gd w = (res, w') \<Longrightarrow>
     events w' = events w \<and> queryLog w' = queryLog w \<and> isRunning w' = isRunning w"
  unfolding openPairPositionWithRetry_def by (rule openPairAttempts_frame)

lemma events_openPairsLoop_margin:
  assumes "allReportInsufficientMargin ex cfg tc sy sz gd rest w" and "rest \<noteq> []"
    and "insufficientMarginCount st + length rest = length (pairs gd)"
    and "\<not> criticalErrorOccurred st"
  shows "\<exists>ms err w'.
      openPairsLoop ex cfg tc sy sz rest gd st w
        = (gd\<lparr>isActive := False\<rparr>, st\<lparr>insufficientMarginCount := length (pairs gd)\<rparr>, w')
      \<and> events w' = events w @ ms @ [GroupDeactivated (groupId gd) ''all_pairs_insufficient_margin'' err]
      \<and> list_all isInsufficientMarginEvent ms \<and> length ms = length rest"
  using assms
proof (induction rest arbitrary: st w)
  case Nil
  then show ?case by simp
next
  case (Cons pair rest)
  from Cons.prems(1) obtain err w1 where
    res: "openPairPositionWithRetry ex cfg tc pair sy sz gd w = (InsufficientMargin err, w1)"
    and tail: "allReportInsufficientMargin ex cfg tc sy sz gd rest
       (emit (InsufficientMarginEvent (hpPairId pair)
          [accountName (long pair), accountName (short pair)] err) w1)"
    by (auto split: prod.splits pairResult.splits)
  let ?ev = "InsufficientMarginEvent (hpPairId pair) [accountName (long pair), accountName (short pair)] err"
  let ?st1 = "st\<lparr>insufficientMarginCount := insufficientMarginCount st + 1\<rparr>"
  have ev: "events w1 = events w" using openPairPositionWithRetry_frame [OF res] by simp
  show ?case
  proof (cases "rest = []")
    case True
    with Cons.prems(3) have "insufficientMarginCount st + 1 = length (pairs gd)" by simp
    then have "openPairsLoop ex cfg tc sy sz (pair # rest) gd st w
        = (gd\<lparr>isActive := False\<rparr>, st\<lparr>insufficientMarginCount := length (pairs gd)\<rparr>,
           emit (GroupDeactivated (groupId gd) ''all_pairs_insufficient_margin'' err) (emit ?ev w1))"
      using Cons.prems(4) res by (simp add: Let_def)
    then show ?thesis
      using True ev
      by (intro exI [of _ "[?ev]"] exI [of _ err]
          exI [of _ "emit (GroupDeactivated (groupId gd) ''all_pairs_insufficient_margin'' err) (emit ?ev w1)"])
        (simp add: isInsufficientMarginEvent_def)
  next
    case False
    with Cons.prems(3) have ne: "insufficientMarginCount st + 1 \<noteq> length (pairs gd)"
      by (cases rest) simp_all
    have step: "openPairsLoop ex cfg tc sy sz (pair # rest) gd st w
        = openPairsLoop ex cfg tc sy sz rest gd ?st1 (emit ?ev w1)"
      using Cons.prems(4) res ne by (simp add: Let_def)
    have cnt: "insufficientMarginCount ?st1 + length rest = length (pairs gd)"
      using Cons.prems(3) by simp
    have nc: "\<not> criticalErrorOccurred ?st1" using Cons.prems(4) by simp
    from Cons.IH [OF tail False cnt nc] obtain ms err' w' where ih:
      "openPairsLoop ex cfg tc sy sz rest gd ?st1 (emit ?ev w1)
        = (gd\<lparr>isActive := False\<rparr>, ?st1\<lparr>insufficientMarginCount := length (pairs gd)\<rparr>, w')"
      "events w' = events (emit ?ev w1) @ ms
          @ [GroupDeactivated (groupId gd) ''all_pairs_insufficient_margin'' err']"
      "list_all isInsufficientMarginEvent ms" "length ms = length rest"
      by blast
    have eq: "openPairsLoop ex cfg tc sy sz (pair # rest) gd st w
        = (gd\<lparr>isActive := False\<rparr>, st\<lparr>insufficientMarginCount := length (pairs gd)\<rparr>, w')"
      unfolding step ih(1) by simp
    have evs: "events w' = events w @ (?ev # ms)
        @ [GroupDeactivated (groupId gd) ''all_pairs_insufficient_margin'' err']"
      using ih(2) ev by simp
    have marg: "list_all isInsufficientMarginEvent (?ev # ms)"
      using ih(3) by (simp add: isInsufficientMarginEvent_def)
    have len: "length (?ev # ms) = length (pair # rest)" using ih(4) by simp
    from eq evs marg len show ?thesis by blast
  qed
qed

lemma twoPairGroup_pairs:
  "pairs twoPairGroup = [\<lparr>hpPairId = ''pair1'', long = accountA, short = accountB\<rparr>,
                         \<lparr>hpPairId = ''pair2'', long = accountC, short = accountD\<rparr>]"
  by (simp add: twoPairGroup_def)

lemma margin_message: "isInsufficientMarginError ''API error: Margin is insufficient.''"
  by (simp add: isInsufficientMarginError_def toLowerCase_def lowerChar_def startsWith_def)

lemma parseDecimal_30000: "parseDecimal ''30000'' = Some 30000"
  by (simp add: parseDecimal_def readSign_def isBlank_def isDigit_def digitVal_def
      readExponent_def scale10_def)

lemma findClient_examples:
  "findClient [accountA, accountB, accountC, accountD] ''A'' = Some accountA"
  "findClient [accountA, accountB, accountC, accountD] ''B'' = Some accountB"
  "findClient [accountA, accountB, accountC, accountD] ''C'' = Some accountC"
  "findClient [accountA, accountB, accountC, accountD] ''D'' = Some accountD"
  by (simp_all add: findClient_def accountA_def accountB_def accountC_def accountD_def)

lemma account_names:
  "accountName accountA = ''A''" "accountName accountB = ''B''"
  "accountName accountC = ''C''" "accountName accountD = ''D''"
  by (simp_all add: accountA_def accountB_def accountC_def accountD_def)

lemma attemptOpen_margin_example:
  assumes "long pair \<in> {accountA, accountC}" "short pair \<in> {accountB, accountD}"
  shows "attemptOpen (scriptedExchange rejectForMargin ''30000'' []) defaultConfig defaultTradingConfig
      pair ''BTCUSDT'' 400 twoPairGroup w
    = (Inl ''API error: Margin is insufficient.'',
       w\<lparr>tick := tick w + 4,
         orderLog := orderLog w @
           [\<lparr>sClient = long pair, sRequest = marketOrder ''BTCUSDT'' ''BUY'' (Some (67 / 1000)) False,
             sReply = Inl ''API error: Margin is insufficient.''\<rparr>]\<rparr>)"
proof -
  have q: "calculateQuantity defaultTradingConfig 400 (Some 30000) None ''BTCUSDT'' = Some (67 / 1000)"
    by (simp add: calculateQuantity_def actualLeverage_def defaultTradingConfig_def
        symbolPrecision_def startsWith_def round_def)
  show ?thesis
    using assms
    by (auto simp: attemptOpen_def twoPairGroup_def findClient_examples account_names
        scriptedExchange_def rejectForMargin_def setBothLeverage_def setLeverage_def
        getSymbolPrice_def placeOrder_def parseDecimal_30000 q defaultConfig_def Let_def)
qed

lemma generateRandomPositionSize_frame:
  "generateRandomPositionSize ex tc w = (sz, w1) \<Longrightarrow>
     events w1 = events w \<and> orderLog w1 = orderLog w \<and> queryLog w1 = queryLog w
     \<and> now w1 = now w \<and> tick w1 = tick w \<and> isRunning w1 = isRunning w"
  by (auto simp: generateRandomPositionSize_def mathRandom_def Let_def split: prod.splits option.splits)

lemma filter_margin_events:
  "list_all isInsufficientMarginEvent ms \<Longrightarrow> filter isGroupDeactivated ms = []"
  by (induction ms) (auto simp: isInsufficientMarginEvent_def isGroupDeactivated_def split: event.splits)

text \<open>
  Claim C2. When every pair of a group (which has at least one pair) reports
  insufficient margin in the open phase of a cycle, \<open>openGroupPositions\<close> opens nothing,
  changes the group data only by setting it inactive (it is not quarantined), and emits,
  after one \<open>insufficientMargin\<close> event for each pair, exactly one deactivation event,
  with the reason \<open>all_pairs_insufficient_margin\<close>.
\<close>

theorem all_pairs_insufficient_margin_suspends:
  assumes ne: "pairs gd \<noteq> []"
    and margin: "allReportInsufficientMargin ex cfg tc sy (fst (generateRandomPositionSize ex tc w)) gd
       (pairs gd) (snd (generateRandomPositionSize ex tc w))"
  shows "fst (openGroupPositions ex cfg tc gd sy w) = 0
     \<and> fst (snd (openGroupPositions ex cfg tc gd sy w)) = gd\<lparr>isActive := False\<rparr>
     \<and> (\<exists>ms err.
           events (snd (snd (openGroupPositions ex cfg tc gd sy w)))
             = events w @ ms @ [GroupDeactivated (groupId gd) ''all_pairs_insufficient_margin'' err]
           \<and> list_all isInsufficientMarginEvent ms \<and> length ms = length (pairs gd))
     \<and> length (filter isGroupDeactivated
          (drop (length (events w)) (events (snd (snd (openGroupPositions ex cfg tc gd sy w)))))) = 1"
proof -
  obtain sz w1 where sz: "generateRandomPositionSize ex tc w = (sz, w1)" by fastforce
  let ?init = "\<lparr>newPositions = [], insufficientMarginCount = 0, criticalErrorOccurred = False\<rparr>"
  have cnt: "insufficientMarginCount ?init + length (pairs gd) = length (pairs gd)" by simp
  have nc: "\<not> criticalErrorOccurred ?init" by simp
  from margin sz have "allReportInsufficientMargin ex cfg tc sy sz gd (pairs gd) w1" by simp
  from events_openPairsLoop_margin [OF this ne cnt nc] obtain ms err w' where loop:
    "openPairsLoop ex cfg tc sy sz (pairs gd) gd ?init w1
       = (gd\<lparr>isActive := False\<rparr>, ?init\<lparr>insufficientMarginCount := length (pairs gd)\<rparr>, w')"
    "events w' = events w1 @ ms @ [GroupDeactivated (groupId gd) ''all_pairs_insufficient_margin'' err]"
    "list_all isInsufficientMarginEvent ms" "length ms = length (pairs gd)"
    by blast
  have run: "openGroupPositions ex cfg tc gd sy w = (0, gd\<lparr>isActive := False\<rparr>, w')"
    by (simp add: openGroupPositions_def sz loop(1))
  have ev: "events w' = events w @ ms @ [GroupDeactivated (groupId gd) ''all_pairs_insufficient_margin'' err]"
    using loop(2) generateRandomPositionSize_frame [OF sz] by simp
  have one: "length (filter isGroupDeactivated (drop (length (events w)) (events w'))) = 1"
    using filter_margin_events [OF loop(3)] by (simp add: ev isGroupDeactivated_def)
  from run ev loop(3,4) one show ?thesis by auto
qed

theorem all_pairs_insufficient_margin_suspends_witness:
  "fst (openGroupPositions (scriptedExchange rejectForMargin ''30000'' []) defaultConfig
          defaultTradingConfig twoPairGroup ''BTCUSDT'' idleWorld) = 0
   \<and> isActive (fst (snd (openGroupPositions (scriptedExchange rejectForMargin ''30000'' [])
          defaultConfig defaultTradingConfig twoPairGroup ''BTCUSDT'' idleWorld))) = False
   \<and> length (filter isGroupDeactivated
        (events (snd (snd (openGroupPositions (scriptedExchange rejectForMargin ''30000'' [])
          defaultConfig defaultTradingConfig twoPairGroup ''BTCUSDT'' idleWorld))))) = 1"
proof -
  let ?ex = "scriptedExchange rejectForMargin ''30000'' []"
  let ?msg = "''API error: Margin is insufficient.''"
  have sz: "generateRandomPositionSize ?ex defaultTradingConfig idleWorld
      = (400, idleWorld\<lparr>draws := 1\<rparr>)"
    by (simp add: generateRandomPositionSize_def mathRandom_def scriptedExchange_def
        defaultTradingConfig_def idleWorld_def round_def)
  have opened: "openPairPositionWithRetry ?ex defaultConfig defaultTradingConfig pair ''BTCUSDT'' 400
        twoPairGroup w
      = (InsufficientMargin ?msg,
         w\<lparr>tick := tick w + 4,
           orderLog := orderLog w @
             [\<lparr>sClient = long pair, sRequest = marketOrder ''BTCUSDT'' ''BUY'' (Some (67 / 1000)) False,
               sReply = Inl ?msg\<rparr>]\<rparr>)"
    if "long pair \<in> {accountA, accountC}" "short pair \<in> {accountB, accountD}" for pair w
    unfolding openPairPositionWithRetry_def
    by (rule openPairAttempts_margin [OF _ attemptOpen_margin_example [OF that] margin_message])
      (simp add: maxRetries_def)
  have ne: "pairs twoPairGroup \<noteq> []" by (simp add: twoPairGroup_def)
  have margin: "allReportInsufficientMargin ?ex defaultConfig defaultTradingConfig ''BTCUSDT''
      (fst (generateRandomPositionSize ?ex defaultTradingConfig idleWorld)) twoPairGroup
      (pairs twoPairGroup) (snd (generateRandomPositionSize ?ex defaultTradingConfig idleWorld))"
    by (simp add: sz twoPairGroup_pairs opened)
  have empty: "events idleWorld = []" by (simp add: idleWorld_def)
  from all_pairs_insufficient_margin_suspends [OF ne margin] empty show ?thesis by simp
qed

lemma attemptOpen_found:
  assumes l: "findClient (apiClients gd) (accountName (long pair)) = Some longClient"
    and s: "findClient (apiClients gd) (accountName (short pair)) = Some shortClient"
  shows "attemptOpen ex cfg tc pair sy sz gd w =
     (let lev = (if leverage cfg \<noteq> 0 then leverage cfg else 5);
          w1 = setBothLeverage ex longClient shortClient sy lev w
      in case getSymbolPrice ex longClient sy w1 of
           (Inl err, w2) \<Rightarrow> (Inl err, w2)
         | (Inr priceField, w2) \<Rightarrow>
             (let currentPrice = parseFloat priceField;
                  qty = calculateQuantity tc sz currentPrice None sy
              in case placeOrder ex longClient (marketOrder sy ''BUY'' qty False) w2 of
                   (Inl err, w3) \<Rightarrow> (Inl err, w3)
                 | (Inr longOrd, w3) \<Rightarrow>
                     (let (r, w4) = mathRandom ex w3;
                          w5 = sleep (interLegDelay cfg r) w4
                      in case placeOrder ex shortClient (marketOrder sy ''SELL'' qty False) w5 of
                           (Inl err, w6) \<Rightarrow> (Inl err, w6)
                         | (Inr shortOrd, w6) \<Rightarrow>
                             (Inr \<lparr>pairId = hpPairId pair, symbol = sy, openTime = now w6,
                                   longOrder = longOrd, shortOrder = shortOrd,
                                   longAccount = long pair, shortAccount = short pair,
                                   quantity = qty,
                                   positionSizeUSDT = sz,
                                   openPrice = currentPrice, status = Open,
                                   closeTime = None, closeLongOrder = None,
                                   closeShortOrder = None\<rparr>, w6))))"
  unfolding attemptOpen_def l s by simp

lemma attemptOpen_not_found:
  "findClient (apiClients gd) (accountName (long pair)) = None
     \<or> findClient (apiClients gd) (accountName (short pair)) = None \<Longrightarrow>
   attemptOpen ex cfg tc pair sy sz gd w
     = (Inl (''Could not find API clients for pair '' @ hpPairId pair), w)"
  unfolding attemptOpen_def by (auto split: option.splits)

lemma attemptOpen_success:
  assumes run: "attemptOpen ex cfg tc pair sy sz gd w = (Inr p, w')"
  shows "\<exists>longClient shortClient qty longOrd shortOrd currentPrice.
      findClient (apiClients gd) (accountName (long pair)) = Some longClient
      \<and> findClient (apiClients gd) (accountName (short pair)) = Some shortClient
      \<and> p = \<lparr>pairId = hpPairId pair, symbol = sy, openTime = now w',
              longOrder = longOrd, shortOrder = shortOrd,
              longAccount = long pair, shortAccount = short pair, quantity = qty,
              positionSizeUSDT = sz, openPrice = currentPrice, status = Open,
              closeTime = None, closeLongOrder = None, closeShortOrder = None\<rparr>
      \<and> orderLog w' = orderLog w @
            [\<lparr>sClient = longClient, sRequest = marketOrder sy ''BUY'' qty False,
              sReply = Inr longOrd\<rparr>,
             \<lparr>sClient = shortClient, sRequest = marketOrder sy ''SELL'' qty False,
              sReply = Inr shortOrd\<rparr>]"
proof -
  from run obtain longClient where l: "findClient (apiClients gd) (accountName (long pair)) = Some longClient"
    using attemptOpen_not_found [of gd pair ex cfg tc sy sz w] by (cases "findClient (apiClients gd) (accountName (long pair))") auto
  from run obtain shortClient where s: "findClient (apiClients gd) (accountName (short pair)) = Some shortClient"
    using attemptOpen_not_found [of gd pair ex cfg tc sy sz w] by (cases "findClient (apiClients gd) (accountName (short pair))") auto
  let ?lev = "if leverage cfg \<noteq> 0 then leverage cfg else 5"
  let ?w1 = "setBothLeverage ex longClient shortClient sy ?lev w"
  obtain pr w2 where gp: "getSymbolPrice ex longClient sy ?w1 = (pr, w2)" by fastforce
  note f2 = getSymbolPrice_fields [OF gp]
  from run gp obtain priceField where pf: "pr = Inr priceField"
    by (cases pr) (simp_all add: attemptOpen_found [OF l s])
  let ?qty = "calculateQuantity tc sz (parseFloat priceField) None sy"
  obtain lr w3 where lo: "placeOrder ex longClient (marketOrder sy ''BUY'' ?qty False) w2 = (lr, w3)"
    by fastforce
  note f3 = placeOrder_log [OF lo]
  from run gp pf lo obtain longOrd where lok: "lr = Inr longOrd"
    by (cases lr) (simp_all add: attemptOpen_found [OF l s])
  obtain r w4 where mr: "mathRandom ex w3 = (r, w4)" by fastforce
  note f4 = mathRandom_fields [OF mr]
  let ?w5 = "sleep (interLegDelay cfg r) w4"
  obtain sr w6 where so: "placeOrder ex shortClient (marketOrder sy ''SELL'' ?qty False) ?w5 = (sr, w6)"
    by fastforce
  note f6 = placeOrder_log [OF so]
  from run gp pf lo lok mr so obtain shortOrd where sok: "sr = Inr shortOrd"
    by (cases sr) (simp_all add: attemptOpen_found [OF l s])
  from run gp pf lo lok mr so sok have
    p: "p = \<lparr>pairId = hpPairId pair, symbol = sy, openTime = now w6,
              longOrder = longOrd, shortOrder = shortOrd,
              longAccount = long pair, shortAccount = short pair, quantity = ?qty,
              positionSizeUSDT = sz, openPrice = parseFloat priceField, status = Open,
              closeTime = None, closeLongOrder = None, closeShortOrder = None\<rparr>"
    and w': "w' = w6"
    by (auto simp: attemptOpen_found [OF l s] Let_def)
  have log: "orderLog w' = orderLog w @
            [\<lparr>sClient = longClient, sRequest = marketOrder sy ''BUY'' ?qty False,
              sReply = Inr longOrd\<rparr>,
             \<lparr>sClient = shortClient, sRequest = marketOrder sy ''SELL'' ?qty False,
              sReply = Inr shortOrd\<rparr>]"
    using f2 f3 f4 f6 lok sok w' by simp
  show ?thesis
    by (rule exI [of _ longClient], rule exI [of _ shortClient], rule exI [of _ ?qty],
        rule exI [of _ longOrd], rule exI [of _ shortOrd], rule exI [of _ "parseFloat priceField"])
      (simp add: l s p w' log [unfolded w'])
qed





lemma closePartialPosition_log:
  assumes lc: "findClient (apiClients gd) (accountName (longAccount p)) \<noteq> None"
    and sc: "findClient (apiClients gd) (accountName (shortAccount p)) \<noteq> None"
    and run: "closePartialPosition ex gd p w = (p', w')"
  shows "\<exists>es. orderLog w' = orderLog w @ es \<and> unwindLog gd p p' es
      \<and> tick w' = tick w + length es \<and> events w' = events w \<and> now w' = now w"
proof -
  from lc obtain longClient where l: "findClient (apiClients gd) (accountName (longAccount p)) = Some longClient"
    by blast
  from sc obtain shortClient where s: "findClient (apiClients gd) (accountName (shortAccount p)) = Some shortClient"
    by blast
  let ?lreq = "marketOrder (symbol p) ''SELL'' (quantity p) True"
  let ?sreq = "marketOrder (symbol p) ''BUY'' (quantity p) True"
  obtain r1 w1 where p1: "placeOrder ex longClient ?lreq w = (r1, w1)" by fastforce
  note f1 = placeOrder_log [OF p1]
  show ?thesis
  proof (cases r1)
    case (Inl msg)
    with run l s p1 have "p' = p" "w' = w1" by (simp_all add: closePartialPosition_def)
    with f1 Inl l s show ?thesis
      by (intro exI [of _ "[\<lparr>sClient = longClient, sRequest = ?lreq, sReply = Inl msg\<rparr>]"])
        (simp add: unwindLog_def)
  next
    case (Inr closeLong)
    obtain r2 w2 where p2: "placeOrder ex shortClient ?sreq w1 = (r2, w2)" by fastforce
    note f2 = placeOrder_log [OF p2]
    show ?thesis
    proof (cases r2)
      case (Inl msg)
      with run l s p1 p2 Inr have "p' = p" "w' = w2" by (simp_all add: closePartialPosition_def)
      with f1 f2 Inl Inr l s show ?thesis
        by (intro exI [of _ "[\<lparr>sClient = longClient, sRequest = ?lreq, sReply = Inr closeLong\<rparr>,
              \<lparr>sClient = shortClient, sRequest = ?sreq, sReply = Inl msg\<rparr>]"])
          (simp add: unwindLog_def)
    next
      case r2: (Inr closeShort)
      with run l s p1 p2 Inr have "p' = p\<lparr>status := EmergencyClosed\<rparr>" "w' = w2"
        by (simp_all add: closePartialPosition_def)
      with f1 f2 r2 Inr l s show ?thesis
        by (intro exI [of _ "[\<lparr>sClient = longClient, sRequest = ?lreq, sReply = Inr closeLong\<rparr>,
              \<lparr>sClient = shortClient, sRequest = ?sreq, sReply = Inr closeShort\<rparr>]"])
          (simp add: unwindLog_def)
    qed
  qed
qed




lemma openPairsLoop_critical:
  assumes "\<not> criticalErrorOccurred st"
    and "openPairPositionWithRetry ex cfg tc pair sy sz gd w = (CriticalError err, w1)"
  shows "openPairsLoop ex cfg tc sy sz (pair # rest) gd st w =
     (let retry = now w1 + 600000;
          gd1 = gd\<lparr>isActive := False, criticalError := True, retryAfter := Some retry\<rparr>;
          w2 = emit (CriticalGroupError (groupId gd) (hpPairId pair) err retry) w1;
          (unwound, w3) = closePartialGroupPositions ex gd1 (newPositions st) w2
      in (gd1, st\<lparr>criticalErrorOccurred := True, newPositions := unwound\<rparr>, w3))"
  using assms by (cases "newPositions st") (simp_all add: Let_def)



lemma quantity_example:
  "calculateQuantity defaultTradingConfig 400 (Some 30000) None ''BTCUSDT'' = Some (67 / 1000)"
  by (simp add: calculateQuantity_def actualLeverage_def defaultTradingConfig_def
      symbolPrecision_def startsWith_def round_def)

lemma attemptOpen_pair1_example:
  "attemptOpen (scriptedExchange rejectLongOfC ''30000'' []) defaultConfig defaultTradingConfig
      \<lparr>hpPairId = ''pair1'', long = accountA, short = accountB\<rparr> ''BTCUSDT'' 400 twoPairGroup idleWorld
    = (Inr openedPair1,
       idleWorld\<lparr>tick := 5, draws := 1, now := 1010000,
         orderLog :=
           [\<lparr>sClient = accountA, sRequest = marketOrder ''BTCUSDT'' ''BUY'' (Some (67 / 1000)) False,
             sReply = Inr (filled ''9'' ''30000'' ''0.1'')\<rparr>,
            \<lparr>sClient = accountB, sRequest = marketOrder ''BTCUSDT'' ''SELL'' (Some (67 / 1000)) False,
             sReply = Inr (filled ''9'' ''30000'' ''0.1'')\<rparr>]\<rparr>)"
  by (simp add: attemptOpen_def twoPairGroup_def findClient_examples account_names
      scriptedExchange_def rejectLongOfC_def setBothLeverage_def setLeverage_def
      getSymbolPrice_def placeOrder_def parseDecimal_30000 quantity_example defaultConfig_def
      Let_def mathRandom_def interLegDelay_def sleep_def idleWorld_def openedPair1_def
      marketOrder_def)



section \<open>Properties of the legs of a pair\<close>

lemma attemptOpen_log_grows:
  "\<exists>es. orderLog (snd (attemptOpen ex cfg tc pair sy sz gd w)) = orderLog w @ es"
proof (cases "findClient (apiClients gd) (accountName (long pair)) = None
     \<or> findClient (apiClients gd) (accountName (short pair)) = None")
  case True
  then show ?thesis by (simp add: attemptOpen_not_found)
next
  case False
  then obtain longClient shortClient where
    l: "findClient (apiClients gd) (accountName (long pair)) = Some longClient"
    and s: "findClient (apiClients gd) (accountName (short pair)) = Some shortClient"
    by auto
  let ?lev = "if leverage cfg \<noteq> 0 then leverage cfg else 5"
  let ?w1 = "setBothLeverage ex longClient shortClient sy ?lev w"
  obtain pr w2 where gp: "getSymbolPrice ex longClient sy ?w1 = (pr, w2)" by fastforce
  note f2 = getSymbolPrice_fields [OF gp]
  show ?thesis
  proof (cases pr)
    case (Inl err)
    with gp f2 show ?thesis by (simp add: attemptOpen_found [OF l s])
  next
    case (Inr priceField)
    let ?qty = "calculateQuantity tc sz (parseFloat priceField) None sy"
    obtain lr w3 where lo: "placeOrder ex longClient (marketOrder sy ''BUY'' ?qty False) w2 = (lr, w3)"
      by fastforce
    note f3 = placeOrder_log [OF lo]
    show ?thesis
    proof (cases lr)
      case (Inl err)
      with gp Inr lo f2 f3 show ?thesis by (simp add: attemptOpen_found [OF l s] Let_def)
    next
      case lok: (Inr longOrd)
      obtain r w4 where mr: "mathRandom ex w3 = (r, w4)" by fastforce
      note f4 = mathRandom_fields [OF mr]
      obtain sr w6 where so: "placeOrder ex shortClient (marketOrder sy ''SELL'' ?qty False)
          (sleep (interLegDelay cfg r) w4) = (sr, w6)"
        by fastforce
      note f6 = placeOrder_log [OF so]
      from gp Inr lo lok mr so f2 f3 f4 f6 show ?thesis
        by (cases sr) (simp_all add: attemptOpen_found [OF l s] Let_def)
    qed
  qed
qed

lemma openPairAttempts_success_log:
  "openPairAttempts ex cfg tc pair sy sz gd attempt lastError w = (Success pp, w') \<Longrightarrow>
     \<exists>earlier w0. attemptOpen ex cfg tc pair sy sz gd w0 = (Inr pp, w')
        \<and> orderLog w0 = orderLog w @ earlier"
proof (induction ex cfg tc pair sy sz gd attempt lastError w rule: openPairAttempts.induct)
  case (1 ex cfg tc pair sy sz gd attempt lastError w)
  show ?case
  proof (cases "attempt \<le> maxRetries")
    case False
    with "1.prems" show ?thesis by (subst (asm) openPairAttempts.simps) simp
  next
    case True
    obtain r w1 where att: "attemptOpen ex cfg tc pair sy sz gd w = (r, w1)" by fastforce
    show ?thesis
    proof (cases r)
      case (Inr p)
      with "1.prems" True att have "p = pp" "w1 = w'"
        by (subst (asm) openPairAttempts.simps, simp)+
      with att Inr show ?thesis by (intro exI [of _ "[]"] exI [of _ w]) simp
    next
      case (Inl err)
      show ?thesis
      proof (cases "isInsufficientMarginError err \<or> attempt = maxRetries")
        case stop: True
        with "1.prems" True att Inl show ?thesis
          by (subst (asm) openPairAttempts.simps) (auto split: if_splits)
      next
        case False
        then have nm: "\<not> isInsufficientMarginError err" and nl: "attempt \<noteq> maxRetries"
          by simp_all
        from "1.prems" True att Inl False have rec:
          "openPairAttempts ex cfg tc pair sy sz gd (attempt + 1) err (sleep (1000 * int attempt) w1)
             = (Success pp, w')"
          by (subst (asm) openPairAttempts.simps) simp
        from "1.IH" [OF True att [symmetric] Inl nm nl rec] obtain earlier w0 where ih:
          "attemptOpen ex cfg tc pair sy sz gd w0 = (Inr pp, w')"
          "orderLog w0 = orderLog (sleep (1000 * int attempt) w1) @ earlier"
          by blast
        from attemptOpen_log_grows [of ex cfg tc pair sy sz gd w] att obtain es where
          "orderLog w1 = orderLog w @ es" by auto
        with ih show ?thesis
          by (intro exI [of _ "es @ earlier"] exI [of _ w0]) simp
      qed
    qed
  qed
qed

lemma openPairPositionWithRetry_success:
  assumes "openPairPositionWithRetry ex cfg tc pair sy sz gd w = (Success pp, w')"
  shows "(\<exists>earlier longClient shortClient.
            drop (length (orderLog w)) (orderLog w') = earlier @
              [\<lparr>sClient = longClient, sRequest = marketOrder sy ''BUY'' (quantity pp) False,
                sReply = Inr (longOrder pp)\<rparr>,
               \<lparr>sClient = shortClient, sRequest = marketOrder sy ''SELL'' (quantity pp) False,
                sReply = Inr (shortOrder pp)\<rparr>])
       \<and> positionSizeUSDT pp = sz \<and> status pp = Open \<and> openedBy ex cfg tc sy sz gd pp"
proof -
  from openPairAttempts_success_log [OF assms [unfolded openPairPositionWithRetry_def]]
  obtain earlier w0 where att: "attemptOpen ex cfg tc pair sy sz gd w0 = (Inr pp, w')"
    and log0: "orderLog w0 = orderLog w @ earlier"
    by blast
  from attemptOpen_success [OF att] obtain longClient shortClient qty longOrd shortOrd currentPrice
    where pp: "pp = \<lparr>pairId = hpPairId pair, symbol = sy, openTime = now w',
              longOrder = longOrd, shortOrder = shortOrd,
              longAccount = long pair, shortAccount = short pair, quantity = qty,
              positionSizeUSDT = sz, openPrice = currentPrice, status = Open,
              closeTime = None, closeLongOrder = None, closeShortOrder = None\<rparr>"
      and log: "orderLog w' = orderLog w0 @
            [\<lparr>sClient = longClient, sRequest = marketOrder sy ''BUY'' qty False,
              sReply = Inr longOrd\<rparr>,
             \<lparr>sClient = shortClient, sRequest = marketOrder sy ''SELL'' qty False,
              sReply = Inr shortOrd\<rparr>]"
    by blast
  have q: "quantity pp = qty" "longOrder pp = longOrd" "shortOrder pp = shortOrd"
    "positionSizeUSDT pp = sz" "status pp = Open"
    by (subst pp, simp)+
  have "drop (length (orderLog w)) (orderLog w') = earlier @
              [\<lparr>sClient = longClient, sRequest = marketOrder sy ''BUY'' (quantity pp) False,
                sReply = Inr (longOrder pp)\<rparr>,
               \<lparr>sClient = shortClient, sRequest = marketOrder sy ''SELL'' (quantity pp) False,
                sReply = Inr (shortOrder pp)\<rparr>]"
    by (simp add: log log0 q)
  moreover have "openedBy ex cfg tc sy sz gd pp"
    unfolding openedBy_def using att by blast
  ultimately show ?thesis using q by blast
qed

lemma closePosition_log:
  assumes run: "closePosition ex gd sy p w = (p', w')"
  shows "(\<exists>es. orderLog w' = orderLog w @ es
            \<and> (\<forall>e \<in> set es. oSymbol (sRequest e) = sy \<and> oQuantity (sRequest e) = quantity p
                   \<and> oReduceOnly (sRequest e))
            \<and> ((p' = p \<and> length es \<le> 2)
               \<or> (\<exists>longClient shortClient closeLong closeShort.
                     es = [\<lparr>sClient = longClient, sRequest = marketOrder sy ''SELL'' (quantity p) True,
                            sReply = Inr closeLong\<rparr>,
                           \<lparr>sClient = shortClient, sRequest = marketOrder sy ''BUY'' (quantity p) True,
                            sReply = Inr closeShort\<rparr>]
                     \<and> p' = p\<lparr>closeTime := Some (now w'), closeLongOrder := Some closeLong,
                               closeShortOrder := Some closeShort, status := Closed\<rparr>)))"
proof (cases "findClient (apiClients gd) (accountName (longAccount p))")
  case None
  with run have "p' = p" "orderLog w' = orderLog w" by (auto simp: closePosition_def)
  then show ?thesis by (intro exI [of _ "[]"]) simp
next
  case l: (Some longClient)
  let ?lreq = "marketOrder sy ''SELL'' (quantity p) True"
  let ?sreq = "marketOrder sy ''BUY'' (quantity p) True"
  have lq: "oSymbol ?lreq = sy \<and> oQuantity ?lreq = quantity p \<and> oReduceOnly ?lreq"
    and sq: "oSymbol ?sreq = sy \<and> oQuantity ?sreq = quantity p \<and> oReduceOnly ?sreq"
    by (simp_all add: marketOrder_def)
  obtain r1 w1 where p1: "placeOrder ex longClient ?lreq w = (r1, w1)" by fastforce
  note f1 = placeOrder_log [OF p1]
  show ?thesis
  proof (cases r1)
    case (Inl msg)
    with run l p1 have "p' = p" "orderLog w' = orderLog w1" by (auto simp: closePosition_def)
    with f1 lq show ?thesis
      by (intro exI [of _ "[\<lparr>sClient = longClient, sRequest = ?lreq, sReply = r1\<rparr>]"]) simp
  next
    case r1: (Inr closeLong)
    show ?thesis
    proof (cases "findClient (apiClients gd) (accountName (shortAccount p))")
      case None
      with run l p1 r1 have "p' = p" "orderLog w' = orderLog w1" by (auto simp: closePosition_def)
      with f1 lq show ?thesis
        by (intro exI [of _ "[\<lparr>sClient = longClient, sRequest = ?lreq, sReply = r1\<rparr>]"]) simp
    next
      case s: (Some shortClient)
      obtain r2 w2 where p2: "placeOrder ex shortClient ?sreq w1 = (r2, w2)" by fastforce
      note f2 = placeOrder_log [OF p2]
      show ?thesis
      proof (cases r2)
        case (Inl msg)
        with run l s p1 p2 r1 have "p' = p" "orderLog w' = orderLog w2"
          by (auto simp: closePosition_def)
        with f1 f2 lq sq show ?thesis
          by (intro exI [of _ "[\<lparr>sClient = longClient, sRequest = ?lreq, sReply = r1\<rparr>,
                \<lparr>sClient = shortClient, sRequest = ?sreq, sReply = r2\<rparr>]"]) simp
      next
        case r2: (Inr closeShort)
        with run l s p1 p2 r1 have
          p': "p' = p\<lparr>closeTime := Some (now w2), closeLongOrder := Some closeLong,
                     closeShortOrder := Some closeShort, status := Closed\<rparr>"
          and w': "orderLog w' = orderLog w2" "now w' = now w2"
          by (auto simp: closePosition_def Let_def)
        have "\<exists>lc sc cl cs.
            [\<lparr>sClient = longClient, sRequest = ?lreq, sReply = r1\<rparr>,
             \<lparr>sClient = shortClient, sRequest = ?sreq, sReply = r2\<rparr>]
            = [\<lparr>sClient = lc, sRequest = ?lreq, sReply = Inr cl\<rparr>,
               \<lparr>sClient = sc, sRequest = ?sreq, sReply = Inr cs\<rparr>]
            \<and> p' = p\<lparr>closeTime := Some (now w'), closeLongOrder := Some cl,
                      closeShortOrder := Some cs, status := Closed\<rparr>"
          using r1 r2 p' w' by auto
        with f1 f2 lq sq w' show ?thesis
          by (intro exI [of _ "[\<lparr>sClient = longClient, sRequest = ?lreq, sReply = r1\<rparr>,
                \<lparr>sClient = shortClient, sRequest = ?sreq, sReply = r2\<rparr>]"]) simp
      qed
    qed
  qed
qed

lemma closePartialPosition_quantity:
  assumes run: "closePartialPosition ex gd p w = (p', w')"
  shows "\<exists>es. orderLog w' = orderLog w @ es
      \<and> (\<forall>e \<in> set es. oSymbol (sRequest e) = symbol p \<and> oQuantity (sRequest e) = quantity p
             \<and> oReduceOnly (sRequest e))
      \<and> (p' = p \<or> p' = p\<lparr>status := EmergencyClosed\<rparr>)"
proof (cases "findClient (apiClients gd) (accountName (longAccount p)) \<noteq> None
    \<and> findClient (apiClients gd) (accountName (shortAccount p)) \<noteq> None")
  case False
  with run have "p' = p" "w' = w" by (auto simp: closePartialPosition_def split: option.splits)
  then show ?thesis by (intro exI [of _ "[]"]) simp
next
  case True
  then have a: "findClient (apiClients gd) (accountName (longAccount p)) \<noteq> None"
    and b: "findClient (apiClients gd) (accountName (shortAccount p)) \<noteq> None"
    by simp_all
  from closePartialPosition_log [OF a b run] obtain es where
    es: "orderLog w' = orderLog w @ es" "unwindLog gd p p' es" by blast
  from es(2) have "(\<forall>e \<in> set es. oSymbol (sRequest e) = symbol p \<and> oQuantity (sRequest e) = quantity p
             \<and> oReduceOnly (sRequest e))
      \<and> (p' = p \<or> p' = p\<lparr>status := EmergencyClosed\<rparr>)"
    unfolding unwindLog_def by (auto simp: marketOrder_def)
  with es(1) show ?thesis by blast
qed

lemma closePartialGroupPositions_sizes:
  "closePartialGroupPositions ex gd ps w = (ps', w') \<Longrightarrow>
     map positionSizeUSDT ps' = map positionSizeUSDT ps \<and> map quantity ps' = map quantity ps"
proof (induction ps arbitrary: w ps')
  case Nil
  then show ?case by simp
next
  case (Cons p ps)
  obtain p1 w1 where one: "closePartialPosition ex gd p w = (p1, w1)" by fastforce
  obtain ps1 w2 where more: "closePartialGroupPositions ex gd ps w1 = (ps1, w2)" by fastforce
  from Cons.prems one more have res: "ps' = p1 # ps1" "w' = w2" by simp_all
  from closePartialPosition_quantity [OF one] have "p1 = p \<or> p1 = p\<lparr>status := EmergencyClosed\<rparr>"
    by blast
  then have "positionSizeUSDT p1 = positionSizeUSDT p \<and> quantity p1 = quantity p" by auto
  with Cons.IH [OF more [unfolded res(2) [symmetric]]] res show ?case by simp
qed

lemma openPairsLoop_sizes:
  "openPairsLoop ex cfg tc sy sz ps gd st w = (gd', st', w') \<Longrightarrow>
     \<forall>p \<in> set (newPositions st). positionSizeUSDT p = sz \<Longrightarrow>
     \<forall>p \<in> set (newPositions st'). positionSizeUSDT p = sz"
proof (induction ps arbitrary: st w)
  case Nil
  then show ?case by simp
next
  case (Cons pair rest)
  show ?case
  proof (cases "criticalErrorOccurred st")
    case True
    with Cons.prems show ?thesis by simp
  next
    case nc: False
    obtain r w1 where res: "openPairPositionWithRetry ex cfg tc pair sy sz gd w = (r, w1)"
      by fastforce
    show ?thesis
    proof (cases r)
      case (Success pp)
      from openPairPositionWithRetry_success [OF res [unfolded Success]]
      have sz: "positionSizeUSDT pp = sz" by blast
      let ?st1 = "st\<lparr>newPositions := newPositions st @ [pp]\<rparr>"
      from Cons.prems(1) nc res Success have
        "openPairsLoop ex cfg tc sy sz rest gd ?st1 (emit (PositionOpened pp) w1) = (gd', st', w')"
        by simp
      moreover have "\<forall>p \<in> set (newPositions ?st1). positionSizeUSDT p = sz"
        using Cons.prems(2) sz by simp
      ultimately show ?thesis by (rule Cons.IH)
    next
      case (InsufficientMargin err)
      let ?st1 = "st\<lparr>insufficientMarginCount := insufficientMarginCount st + 1\<rparr>"
      let ?w2 = "emit (InsufficientMarginEvent (hpPairId pair)
                         [accountName (long pair), accountName (short pair)] err) w1"
      have keep: "\<forall>p \<in> set (newPositions ?st1). positionSizeUSDT p = sz"
        using Cons.prems(2) by simp
      show ?thesis
      proof (cases "insufficientMarginCount st + 1 = length (pairs gd)")
        case True
        with Cons.prems(1) nc res InsufficientMargin have "st' = ?st1" by (simp add: Let_def)
        with keep show ?thesis by simp
      next
        case False
        with Cons.prems(1) nc res InsufficientMargin have
          "openPairsLoop ex cfg tc sy sz rest gd ?st1 ?w2 = (gd', st', w')"
          by (simp add: Let_def)
        from this keep show ?thesis by (rule Cons.IH)
      qed
    next
      case (CriticalError err)
      let ?retry = "now w1 + 600000"
      let ?gd1 = "gd\<lparr>isActive := False, criticalError := True, retryAfter := Some ?retry\<rparr>"
      let ?w2 = "emit (CriticalGroupError (groupId gd) (hpPairId pair) err ?retry) w1"
      obtain unwound w3 where unw:
        "closePartialGroupPositions ex ?gd1 (newPositions st) ?w2 = (unwound, w3)" by fastforce
      from Cons.prems(1) have "st' = st\<lparr>criticalErrorOccurred := True, newPositions := unwound\<rparr>"
        unfolding openPairsLoop_critical [OF nc res [unfolded CriticalError]]
        by (simp add: Let_def unw)
      moreover from closePartialGroupPositions_sizes [OF unw] Cons.prems(2)
      have "\<forall>p \<in> set unwound. positionSizeUSDT p = sz"
        by (metis (no_types, lifting) in_set_conv_nth length_map nth_map)
      ultimately show ?thesis by simp
    qed
  qed
qed

lemma openPairsLoop_group:
  "openPairsLoop ex cfg tc sy sz ps gd st w = (gd', st', w') \<Longrightarrow>
     positions gd' = positions gd \<and> apiClients gd' = apiClients gd \<and> pairs gd' = pairs gd
     \<and> pnlBook gd' = pnlBook gd \<and> currentCycle gd' = currentCycle gd \<and> groupId gd' = groupId gd"
proof (induction ps arbitrary: st w)
  case Nil
  then show ?case by simp
next
  case (Cons pair rest)
  show ?case
  proof (cases "criticalErrorOccurred st")
    case True
    with Cons.prems show ?thesis by simp
  next
    case nc: False
    obtain r w1 where res: "openPairPositionWithRetry ex cfg tc pair sy sz gd w = (r, w1)"
      by fastforce
    show ?thesis
    proof (cases r)
      case (Success pp)
      from Cons.prems nc res Success have
        "openPairsLoop ex cfg tc sy sz rest gd (st\<lparr>newPositions := newPositions st @ [pp]\<rparr>)
           (emit (PositionOpened pp) w1) = (gd', st', w')"
        by simp
      then show ?thesis by (rule Cons.IH)
    next
      case (InsufficientMargin err)
      let ?st1 = "st\<lparr>insufficientMarginCount := insufficientMarginCount st + 1\<rparr>"
      let ?w2 = "emit (InsufficientMarginEvent (hpPairId pair)
                         [accountName (long pair), accountName (short pair)] err) w1"
      show ?thesis
      proof (cases "insufficientMarginCount st + 1 = length (pairs gd)")
        case True
        with Cons.prems nc res InsufficientMargin have "gd' = gd\<lparr>isActive := False\<rparr>"
          by (simp add: Let_def)
        then show ?thesis by simp
      next
        case False
        with Cons.prems nc res InsufficientMargin have
          "openPairsLoop ex cfg tc sy sz rest gd ?st1 ?w2 = (gd', st', w')"
          by (simp add: Let_def)
        then show ?thesis by (rule Cons.IH)
      qed
    next
      case (CriticalError err)
      from Cons.prems have
        "gd' = gd\<lparr>isActive := False, criticalError := True, retryAfter := Some (now w1 + 600000)\<rparr>"
        unfolding openPairsLoop_critical [OF nc res [unfolded CriticalError]]
        by (simp add: Let_def split: prod.splits)
      then show ?thesis by simp
    qed
  qed
qed

lemma openGroupPositions_sizes:
  assumes "openGroupPositions ex cfg tc gd sy w = (n, gd', w')"
  shows "\<exists>new. positions gd' = positions gd @ new
     \<and> (\<forall>p \<in> set new. positionSizeUSDT p = fst (generateRandomPositionSize ex tc w))"
proof -
  obtain sz w1 where sz: "generateRandomPositionSize ex tc w = (sz, w1)" by fastforce
  let ?init = "\<lparr>newPositions = [], insufficientMarginCount = 0, criticalErrorOccurred = False\<rparr>"
  obtain gd1 st w2 where loop: "openPairsLoop ex cfg tc sy sz (pairs gd) gd ?init w1 = (gd1, st, w2)"
    by (metis prod_cases3)
  have same: "positions gd1 = positions gd" using openPairsLoop_group [OF loop] by simp
  from openPairsLoop_sizes [OF loop] have all: "\<forall>p \<in> set (newPositions st). positionSizeUSDT p = sz"
    by simp
  from assms sz loop have gd': "gd' = (if \<not> criticalErrorOccurred st
      then gd1\<lparr>positions := positions gd1 @ newPositions st\<rparr> else gd1)"
    by (simp add: openGroupPositions_def)
  show ?thesis
  proof (cases "criticalErrorOccurred st")
    case True
    with gd' same show ?thesis by (intro exI [of _ "[]"]) simp
  next
    case False
    with gd' same all sz show ?thesis by (intro exI [of _ "newPositions st"]) simp
  qed
qed

text \<open>
  Claim C6. A position pair returned by \<open>openPairPositionWithRetry\<close> was opened by two
  orders, the last two of the call, a \<open>BUY\<close> and a \<open>SELL\<close> for the quantity recorded in
  the pair, whose confirmations are recorded as its long and short orders; its position
  size is the size passed for the group. Every order that \<open>closeGroupPositions\<close> or the
  emergency unwind submits for a pair is a reduce-only order for the recorded quantity,
  which closing does not change; a pair ends \<open>Closed\<close> only through a \<open>SELL\<close> and a
  \<open>BUY\<close> of that quantity. All pairs opened in one run of the open loop, and so all
  pairs that \<open>openGroupPositions\<close> adds to the ledger, carry the one position size
  sampled for that cycle.
\<close>

theorem pair_legs_share_quantity_and_size:
  "(openPairPositionWithRetry ex cfg tc pair sy sz gd w = (Success pp, w1) \<longrightarrow>
      (\<exists>earlier longClient shortClient.
         drop (length (orderLog w)) (orderLog w1) = earlier @
           [\<lparr>sClient = longClient, sRequest = marketOrder sy ''BUY'' (quantity pp) False,
             sReply = Inr (longOrder pp)\<rparr>,
            \<lparr>sClient = shortClient, sRequest = marketOrder sy ''SELL'' (quantity pp) False,
             sReply = Inr (shortOrder pp)\<rparr>])
      \<and> positionSizeUSDT pp = sz \<and> status pp = Open)
   \<and> (closePosition ex gd sy2 p w = (p2, w2) \<longrightarrow>
        quantity p2 = quantity p
        \<and> (\<forall>e \<in> set (drop (length (orderLog w)) (orderLog w2)).
              oQuantity (sRequest e) = quantity p \<and> oReduceOnly (sRequest e))
        \<and> (status p = Open \<and> status p2 = Closed \<longrightarrow>
              (\<exists>longClient shortClient closeLong closeShort.
                 drop (length (orderLog w)) (orderLog w2) =
                   [\<lparr>sClient = longClient, sRequest = marketOrder sy2 ''SELL'' (quantity p) True,
                     sReply = Inr closeLong\<rparr>,
                    \<lparr>sClient = shortClient, sRequest = marketOrder sy2 ''BUY'' (quantity p) True,
                     sReply = Inr closeShort\<rparr>]
                 \<and> closeLongOrder p2 = Some closeLong \<and> closeShortOrder p2 = Some closeShort)))
   \<and> (closePartialPosition ex gd p w = (p3, w3) \<longrightarrow>
        quantity p3 = quantity p
        \<and> (\<forall>e \<in> set (drop (length (orderLog w)) (orderLog w3)).
              oQuantity (sRequest e) = quantity p \<and> oReduceOnly (sRequest e)))
   \<and> (openPairsLoop ex cfg tc sy sz ps gd st w = (gd4, st4, w4)
        \<and> (\<forall>q \<in> set (newPositions st). positionSizeUSDT q = sz) \<longrightarrow>
        (\<forall>q \<in> set (newPositions st4). positionSizeUSDT q = sz))
   \<and> (openGroupPositions ex cfg tc gd sy w = (n, gd5, w5) \<longrightarrow>
        (\<exists>new. positions gd5 = positions gd @ new
           \<and> (\<forall>q \<in> set new. positionSizeUSDT q = fst (generateRandomPositionSize ex tc w))))"
proof (intro conjI impI)
  assume "openPairPositionWithRetry ex cfg tc pair sy sz gd w = (Success pp, w1)"
  from openPairPositionWithRetry_success [OF this]
  show "\<exists>earlier longClient shortClient.
         drop (length (orderLog w)) (orderLog w1) = earlier @
           [\<lparr>sClient = longClient, sRequest = marketOrder sy ''BUY'' (quantity pp) False,
             sReply = Inr (longOrder pp)\<rparr>,
            \<lparr>sClient = shortClient, sRequest = marketOrder sy ''SELL'' (quantity pp) False,
             sReply = Inr (shortOrder pp)\<rparr>]"
    and "positionSizeUSDT pp = sz" and "status pp = Open"
    by blast+
next
  assume run: "closePosition ex gd sy2 p w = (p2, w2)"
  from closePosition_log [OF run] obtain es where es: "orderLog w2 = orderLog w @ es"
    and all: "\<forall>e \<in> set es. oSymbol (sRequest e) = sy2 \<and> oQuantity (sRequest e) = quantity p
                   \<and> oReduceOnly (sRequest e)"
    and alt: "(p2 = p \<and> length es \<le> 2)
               \<or> (\<exists>longClient shortClient closeLong closeShort.
                     es = [\<lparr>sClient = longClient, sRequest = marketOrder sy2 ''SELL'' (quantity p) True,
                            sReply = Inr closeLong\<rparr>,
                           \<lparr>sClient = shortClient, sRequest = marketOrder sy2 ''BUY'' (quantity p) True,
                            sReply = Inr closeShort\<rparr>]
                     \<and> p2 = p\<lparr>closeTime := Some (now w2), closeLongOrder := Some closeLong,
                               closeShortOrder := Some closeShort, status := Closed\<rparr>)"
    by blast
  from alt show "quantity p2 = quantity p" by auto
  from all es show "\<forall>e \<in> set (drop (length (orderLog w)) (orderLog w2)).
              oQuantity (sRequest e) = quantity p \<and> oReduceOnly (sRequest e)"
    by simp
  assume "status p = Open \<and> status p2 = Closed"
  with alt es show "\<exists>longClient shortClient closeLong closeShort.
                 drop (length (orderLog w)) (orderLog w2) =
                   [\<lparr>sClient = longClient, sRequest = marketOrder sy2 ''SELL'' (quantity p) True,
                     sReply = Inr closeLong\<rparr>,
                    \<lparr>sClient = shortClient, sRequest = marketOrder sy2 ''BUY'' (quantity p) True,
                     sReply = Inr closeShort\<rparr>]
                 \<and> closeLongOrder p2 = Some closeLong \<and> closeShortOrder p2 = Some closeShort"
    by auto
next
  assume run: "closePartialPosition ex gd p w = (p3, w3)"
  from closePartialPosition_quantity [OF run] obtain es where es: "orderLog w3 = orderLog w @ es"
    and all: "\<forall>e \<in> set es. oSymbol (sRequest e) = symbol p \<and> oQuantity (sRequest e) = quantity p
             \<and> oReduceOnly (sRequest e)"
    and alt: "p3 = p \<or> p3 = p\<lparr>status := EmergencyClosed\<rparr>"
    by blast
  from alt show "quantity p3 = quantity p" by auto
  from all es show "\<forall>e \<in> set (drop (length (orderLog w)) (orderLog w3)).
              oQuantity (sRequest e) = quantity p \<and> oReduceOnly (sRequest e)"
    by simp
next
  assume "openPairsLoop ex cfg tc sy sz ps gd st w = (gd4, st4, w4)
        \<and> (\<forall>q \<in> set (newPositions st). positionSizeUSDT q = sz)"
  then show "\<forall>q \<in> set (newPositions st4). positionSizeUSDT q = sz"
    using openPairsLoop_sizes by blast
next
  assume "openGroupPositions ex cfg tc gd sy w = (n, gd5, w5)"
  then show "\<exists>new. positions gd5 = positions gd @ new
           \<and> (\<forall>q \<in> set new. positionSizeUSDT q = fst (generateRandomPositionSize ex tc w))"
    by (rule openGroupPositions_sizes)
qed

theorem pair_legs_share_quantity_and_size_witness:
  "(\<exists>earlier longClient shortClient.
      orderLog (snd (openPairPositionWithRetry (scriptedExchange rejectLongOfC ''30000'' [])
         defaultConfig defaultTradingConfig \<lparr>hpPairId = ''pair1'', long = accountA, short = accountB\<rparr>
         ''BTCUSDT'' 400 twoPairGroup idleWorld))
      = earlier @
         [\<lparr>sClient = longClient, sRequest = marketOrder ''BTCUSDT'' ''BUY'' (Some (67 / 1000)) False,
           sReply = Inr (filled ''9'' ''30000'' ''0.1'')\<rparr>,
          \<lparr>sClient = shortClient, sRequest = marketOrder ''BTCUSDT'' ''SELL'' (Some (67 / 1000)) False,
           sReply = Inr (filled ''9'' ''30000'' ''0.1'')\<rparr>])
   \<and> status (fst (closePosition (scriptedExchange rejectLongOfC ''30000'' []) twoPairGroup
        ''BTCUSDT'' openedPair1 idleWorld)) = Closed
   \<and> quantity (fst (closePosition (scriptedExchange rejectLongOfC ''30000'' []) twoPairGroup
        ''BTCUSDT'' openedPair1 idleWorld)) = Some (67 / 1000)
   \<and> map (\<lambda>e. (oSide (sRequest e), oQuantity (sRequest e), oReduceOnly (sRequest e)))
        (orderLog (snd (closePosition (scriptedExchange rejectLongOfC ''30000'' []) twoPairGroup
           ''BTCUSDT'' openedPair1 idleWorld)))
      = [(''SELL'', Some (67 / 1000), True), (''BUY'', Some (67 / 1000), True)]"
proof -
  let ?ex = "scriptedExchange rejectLongOfC ''30000'' []"
  let ?pair1 = "\<lparr>hpPairId = ''pair1'', long = accountA, short = accountB\<rparr>"
  let ?open = "openPairPositionWithRetry ?ex defaultConfig defaultTradingConfig ?pair1
      ''BTCUSDT'' 400 twoPairGroup idleWorld"
  let ?close = "closePosition ?ex twoPairGroup ''BTCUSDT'' openedPair1 idleWorld"
  note inst = pair_legs_share_quantity_and_size
    [of ?ex defaultConfig defaultTradingConfig ?pair1 "''BTCUSDT''" 400 twoPairGroup idleWorld
        openedPair1 "snd ?open" "''BTCUSDT''" openedPair1 "fst ?close" "snd ?close"]
  have "\<exists>w1. ?open = (Success openedPair1, w1)"
    unfolding openPairPositionWithRetry_def
    using openPairAttempts_success [OF _ attemptOpen_pair1_example, of 1 "[]"]
    by (simp add: maxRetries_def)
  then have opened: "?open = (Success openedPair1, snd ?open)" by auto
  have empty: "orderLog idleWorld = []" by (simp add: idleWorld_def)
  have q: "quantity openedPair1 = Some (67 / 1000)" "status openedPair1 = Open"
    "longOrder openedPair1 = filled ''9'' ''30000'' ''0.1''"
    "shortOrder openedPair1 = filled ''9'' ''30000'' ''0.1''"
    by (simp_all add: openedPair1_def)
  have closed: "status (fst ?close) = Closed"
    by (simp add: closePosition_def twoPairGroup_def findClient_examples account_names
        placeOrder_def scriptedExchange_def rejectLongOfC_def openedPair1_def marketOrder_def
        Let_def)
  have run: "?close = (fst ?close, snd ?close)" by simp
  from inst opened have "\<exists>earlier longClient shortClient.
         drop (length (orderLog idleWorld)) (orderLog (snd ?open)) = earlier @
           [\<lparr>sClient = longClient, sRequest = marketOrder ''BTCUSDT'' ''BUY'' (quantity openedPair1) False,
             sReply = Inr (longOrder openedPair1)\<rparr>,
            \<lparr>sClient = shortClient, sRequest = marketOrder ''BTCUSDT'' ''SELL'' (quantity openedPair1) False,
             sReply = Inr (shortOrder openedPair1)\<rparr>]"
    by blast
  then have legs: "\<exists>earlier longClient shortClient.
      orderLog (snd ?open) = earlier @
         [\<lparr>sClient = longClient, sRequest = marketOrder ''BTCUSDT'' ''BUY'' (Some (67 / 1000)) False,
           sReply = Inr (filled ''9'' ''30000'' ''0.1'')\<rparr>,
          \<lparr>sClient = shortClient, sRequest = marketOrder ''BTCUSDT'' ''SELL'' (Some (67 / 1000)) False,
           sReply = Inr (filled ''9'' ''30000'' ''0.1'')\<rparr>]"
    by (simp add: empty q)
  from inst run have same: "quantity (fst ?close) = quantity openedPair1" by blast
  from inst run q(2) closed have "\<exists>longClient shortClient closeLong closeShort.
                 drop (length (orderLog idleWorld)) (orderLog (snd ?close)) =
                   [\<lparr>sClient = longClient,
                     sRequest = marketOrder ''BTCUSDT'' ''SELL'' (quantity openedPair1) True,
                     sReply = Inr closeLong\<rparr>,
                    \<lparr>sClient = shortClient,
                     sRequest = marketOrder ''BTCUSDT'' ''BUY'' (quantity openedPair1) True,
                     sReply = Inr closeShort\<rparr>]
                 \<and> closeLongOrder (fst ?close) = Some closeLong
                 \<and> closeShortOrder (fst ?close) = Some closeShort"
    by blast
  then have orders: "map (\<lambda>e. (oSide (sRequest e), oQuantity (sRequest e), oReduceOnly (sRequest e)))
        (orderLog (snd ?close))
      = [(''SELL'', Some (67 / 1000), True), (''BUY'', Some (67 / 1000), True)]"
    by (auto simp: empty q marketOrder_def)
  from legs closed same q(1) orders show ?thesis by simp
qed

end
